theory Spec2Isabelle
  imports Main
begin

section \<open>Strings and Python truthiness\<close>

text \<open>
  A Python \<open>str\<close> is modelled as a \<open>string\<close>, one \<open>char\<close> per code point
  (code points below 256; among these the regular-expression class \<open>\d\<close> is exactly
  the ASCII digits). An optional dictionary entry is an \<open>option\<close>: \<open>None\<close> stands
  for a missing key. The fields of a task or project dictionary carry the types that
  the docstrings of the tools give them.
\<close>

text \<open>\<open>not s\<close> for an optional string read with \<open>dict.get\<close>: missing and empty are falsy.\<close>

definition falsy_str :: "string option \<Rightarrow> bool" where
  "falsy_str v = (case v of None \<Rightarrow> True | Some s \<Rightarrow> s = [])"

section \<open>Dates and times\<close>

text \<open>
  A \<open>datetime.date\<close> is represented by its proleptic Gregorian ordinal, the value of
  \<open>date.toordinal()\<close> (1 is 0001-01-01, 3652059 is 9999-12-31), and an aware
  \<open>datetime\<close> by the ordinal of its wall-clock date, the microsecond of that day and
  its UTC offset in microseconds. Comparing two dates is comparing their ordinals.
\<close>

record datetime =
  dt_ordinal :: int
  dt_us :: int
  dt_offset :: int

definition MINYEAR :: int where "MINYEAR = 1"
definition MAXYEAR :: int where "MAXYEAR = 9999"
definition MAXORDINAL :: int where "MAXORDINAL = 3652059"
definition day_us :: int where "day_us = 86400000000"

definition is_leap :: "int \<Rightarrow> bool" where
  "is_leap y = (y mod 4 = 0 \<and> (y mod 100 \<noteq> 0 \<or> y mod 400 = 0))"

definition days_in_month :: "int \<Rightarrow> int \<Rightarrow> int" where
  "days_in_month y m =
     (if m = 2 \<and> is_leap y then 29
      else if m = 2 then 28
      else if m = 4 \<or> m = 6 \<or> m = 9 \<or> m = 11 then 30
      else 31)"

definition days_before_month :: "int \<Rightarrow> int \<Rightarrow> int" where
  "days_before_month y m =
     (if m = 1 then 0 else if m = 2 then 31 else if m = 3 then 59 else if m = 4 then 90
      else if m = 5 then 120 else if m = 6 then 151 else if m = 7 then 181
      else if m = 8 then 212 else if m = 9 then 243 else if m = 10 then 273
      else if m = 11 then 304 else 334)
     + (if 2 < m \<and> is_leap y then 1 else 0)"

definition days_before_year :: "int \<Rightarrow> int" where
  "days_before_year year = (let y = year - 1 in y * 365 + y div 4 - y div 100 + y div 400)"

definition ymd2ord :: "int \<Rightarrow> int \<Rightarrow> int \<Rightarrow> int" where
  "ymd2ord y m d = days_before_year y + days_before_month y m + d"

section \<open>\<open>datetime.strptime\<close> for the format of the date predicates\<close>

text \<open>
  The four date predicates parse \<open>dueDate\<close> with
  \<open>datetime.strptime(due_date, "%Y-%m-%dT%H:%M:%S.%f%z")\<close>. The library turns the format
  into one regular expression, takes the first match found by backtracking, requires it
  to cover the whole string, and then builds the \<open>datetime\<close>, which checks the ranges of
  its fields. Every failure is a \<open>ValueError\<close>, which the predicates catch; \<open>strptime\<close>
  below returns \<open>None\<close> for it. A regular expression is modelled as a function from the
  input to the list of its matches, each with the unread rest, in the order in which
  backtracking tries them.
\<close>

type_synonym 'a parser = "string \<Rightarrow> ('a \<times> string) list"

definition ret :: "'a \<Rightarrow> 'a parser" where
  "ret a s = [(a, s)]"

definition bind :: "'a parser \<Rightarrow> ('a \<Rightarrow> 'b parser) \<Rightarrow> 'b parser" where
  "bind p f s = concat (map (\<lambda>(a, r). f a r) (p s))"

definition alt :: "'a parser \<Rightarrow> 'a parser \<Rightarrow> 'a parser" where
  "alt p q s = p s @ q s"

definition digit_of :: "char \<Rightarrow> int option" where
  "digit_of c =
     map_of [(CHR ''0'', 0), (CHR ''1'', 1), (CHR ''2'', 2), (CHR ''3'', 3), (CHR ''4'', 4),
             (CHR ''5'', 5), (CHR ''6'', 6), (CHR ''7'', 7), (CHR ''8'', 8), (CHR ''9'', 9)] c"

text \<open>One digit whose value lies in \<open>[lo, hi]\<close>.\<close>

fun dig :: "int \<Rightarrow> int \<Rightarrow> int parser" where
  "dig lo hi [] = []"
| "dig lo hi (c # r) =
     (case digit_of c of
        None \<Rightarrow> []
      | Some v \<Rightarrow> if lo \<le> v \<and> v \<le> hi then [(v, r)] else [])"

text \<open>Two digits, the first in \<open>[l1, h1]\<close> and the second in \<open>[l2, h2]\<close>.\<close>

definition dd :: "int \<Rightarrow> int \<Rightarrow> int \<Rightarrow> int \<Rightarrow> int parser" where
  "dd l1 h1 l2 h2 = bind (dig l1 h1) (\<lambda>a. bind (dig l2 h2) (\<lambda>b. ret (10 * a + b)))"

text \<open>A literal character; the expression is compiled with \<open>re.IGNORECASE\<close>.\<close>

fun lit :: "char \<Rightarrow> unit parser" where
  "lit c [] = []"
| "lit c (x # r) = (if x = c then [((), r)] else [])"

definition lit_T :: "unit parser" where
  "lit_T = alt (lit CHR ''T'') (lit CHR ''t'')"

text \<open>\<open>[0-9]{1,n}\<close>, greedy: the longest run of digits first.\<close>

fun digs :: "nat \<Rightarrow> int list parser" where
  "digs 0 = (\<lambda>s. [])"
| "digs (Suc n) =
     bind (dig 0 9) (\<lambda>a. alt (bind (digs n) (\<lambda>ds. ret (a # ds))) (ret [a]))"

text \<open>
  \<open>%Y\<close> is \<open>\d\d\d\d\<close>, \<open>%m\<close> is \<open>1[0-2]|0[1-9]|[1-9]\<close>,
  \<open>%d\<close> is \<open>3[0-1]|[1-2]\d|0[1-9]|[1-9]| [1-9]\<close>, \<open>%H\<close> is \<open>2[0-3]|[0-1]\d|\d\<close>,
  \<open>%M\<close> is \<open>[0-5]\d|\d\<close>, \<open>%S\<close> is \<open>6[0-1]|[0-5]\d|\d\<close> and \<open>%f\<close> is \<open>[0-9]{1,6}\<close>.
\<close>

definition re_Y :: "int parser" where
  "re_Y = bind (dd 0 9 0 9) (\<lambda>a. bind (dd 0 9 0 9) (\<lambda>b. ret (100 * a + b)))"

definition re_m :: "int parser" where
  "re_m = alt (dd 1 1 0 2) (alt (dd 0 0 1 9) (dig 1 9))"

definition re_d :: "int parser" where
  "re_d = alt (dd 3 3 0 1) (alt (dd 1 2 0 9) (alt (dd 0 0 1 9) (alt (dig 1 9)
            (bind (lit CHR '' '') (\<lambda>_. dig 1 9)))))"

definition re_H :: "int parser" where
  "re_H = alt (dd 2 2 0 3) (alt (dd 0 1 0 9) (dig 0 9))"

definition re_M :: "int parser" where
  "re_M = alt (dd 0 5 0 9) (dig 0 9)"

definition re_S :: "int parser" where
  "re_S = alt (dd 6 6 0 1) (alt (dd 0 5 0 9) (dig 0 9))"

definition re_f :: "int list parser" where
  "re_f = digs 6"

text \<open>
  \<open>%z\<close> is \<open>[+-]\d\d:?[0-5]\d(:?[0-5]\d(\.\d{1,6})?)?|(?-i:Z)\<close>. A numeric offset
  keeps its sign, hours, whether a colon follows the hours, minutes, and the optional
  seconds part: whether a colon precedes it, the seconds and the digits of the fraction.
\<close>

datatype tz_match =
    Zulu
  | Numeric bool int bool int "(bool \<times> int \<times> int list) option"

definition re_colon :: "bool parser" where
  "re_colon = alt (bind (lit CHR '':'') (\<lambda>_. ret True)) (ret False)"

definition re_sign :: "bool parser" where
  "re_sign = alt (bind (lit CHR ''+'') (\<lambda>_. ret False)) (bind (lit CHR ''-'') (\<lambda>_. ret True))"

definition re_frac :: "int list parser" where
  "re_frac = alt (bind (lit CHR ''.'') (\<lambda>_. digs 6)) (ret [])"

definition re_secs :: "(bool \<times> int \<times> int list) option parser" where
  "re_secs = alt
     (bind re_colon (\<lambda>c. bind (dd 0 5 0 9) (\<lambda>ss. bind re_frac (\<lambda>fr. ret (Some (c, ss, fr))))))
     (ret None)"

definition re_z :: "tz_match parser" where
  "re_z = alt
     (bind re_sign (\<lambda>neg. bind (dd 0 9 0 9) (\<lambda>hh. bind re_colon (\<lambda>c1.
        bind (dd 0 5 0 9) (\<lambda>mm. bind re_secs (\<lambda>sc. ret (Numeric neg hh c1 mm sc)))))))
     (bind (lit CHR ''Z'') (\<lambda>_. ret Zulu))"

record found =
  f_Y :: int
  f_m :: int
  f_d :: int
  f_H :: int
  f_M :: int
  f_S :: int
  f_f :: "int list"
  f_z :: tz_match

definition format_regex :: "found parser" where
  "format_regex =
     bind re_Y (\<lambda>Y. bind (lit CHR ''-'') (\<lambda>_.
     bind re_m (\<lambda>m. bind (lit CHR ''-'') (\<lambda>_.
     bind re_d (\<lambda>d. bind lit_T (\<lambda>_.
     bind re_H (\<lambda>H. bind (lit CHR '':'') (\<lambda>_.
     bind re_M (\<lambda>M. bind (lit CHR '':'') (\<lambda>_.
     bind re_S (\<lambda>S. bind (lit CHR ''.'') (\<lambda>_.
     bind re_f (\<lambda>f. bind re_z (\<lambda>z.
       ret \<lparr>f_Y = Y, f_m = m, f_d = d, f_H = H, f_M = M, f_S = S, f_f = f, f_z = z\<rparr>
     ))))))))))))))"

text \<open>The digits of a fraction, padded with zeros on the right to six places.\<close>

definition pad6 :: "int list \<Rightarrow> int" where
  "pad6 ds = foldl (\<lambda>v d. 10 * v + d) 0 (take 6 (ds @ replicate 6 0))"

text \<open>
  The offset in microseconds. With a seconds part the two colons must agree: the
  library strips the first colon, raises \<open>ValueError\<close> ("Inconsistent use of :") when
  the second is then missing, and fails in \<open>int(":S")\<close> when only the second is there.
\<close>

definition z_offset :: "tz_match \<Rightarrow> int option" where
  "z_offset z =
     (case z of
        Zulu \<Rightarrow> Some 0
      | Numeric neg hh c1 mm sc \<Rightarrow>
          (case sc of
             None \<Rightarrow>
               Some ((if neg then - 1 else 1) * ((hh * 3600 + mm * 60) * 1000000))
           | Some (c2, ss, fr) \<Rightarrow>
               if c1 \<noteq> c2 then None
               else Some ((if neg then - 1 else 1)
                      * ((hh * 3600 + mm * 60 + ss) * 1000000 + pad6 fr))))"

text \<open>
  The constructors of \<open>date\<close>, \<open>time\<close> and \<open>timezone\<close> check their arguments
  (\<open>_check_date_fields\<close>, \<open>_check_time_fields\<close>; the offset of a \<open>timezone\<close> lies strictly
  between minus and plus 24 hours) and raise \<open>ValueError\<close>.
\<close>

definition check_date_fields :: "int \<Rightarrow> int \<Rightarrow> int \<Rightarrow> bool" where
  "check_date_fields y m d =
     (MINYEAR \<le> y \<and> y \<le> MAXYEAR \<and> 1 \<le> m \<and> m \<le> 12 \<and> 1 \<le> d \<and> d \<le> days_in_month y m)"

definition check_time_fields :: "int \<Rightarrow> int \<Rightarrow> int \<Rightarrow> int \<Rightarrow> bool" where
  "check_time_fields h mi sec us =
     (0 \<le> h \<and> h \<le> 23 \<and> 0 \<le> mi \<and> mi \<le> 59 \<and> 0 \<le> sec \<and> sec \<le> 59
      \<and> 0 \<le> us \<and> us \<le> 999999)"

definition build_datetime :: "found \<Rightarrow> datetime option" where
  "build_datetime g =
     (case z_offset (f_z g) of
        None \<Rightarrow> None
      | Some off \<Rightarrow>
          if \<not> check_date_fields (f_Y g) (f_m g) (f_d g) then None
          else if \<not> (- day_us < off \<and> off < day_us) then None
          else if \<not> check_time_fields (f_H g) (f_M g) (f_S g) (pad6 (f_f g)) then None
          else Some \<lparr>dt_ordinal = ymd2ord (f_Y g) (f_m g) (f_d g),
                     dt_us = (f_H g * 3600 + f_M g * 60 + f_S g) * 1000000 + pad6 (f_f g),
                     dt_offset = off\<rparr>)"

definition strptime :: "string \<Rightarrow> datetime option" where
  "strptime s =
     (case format_regex s of
        [] \<Rightarrow> None
      | (g, rest) # _ \<Rightarrow> if rest \<noteq> [] then None else build_datetime g)"

section \<open>Exceptions\<close>

text \<open>
  The text of an exception is kept as a value: one constructor for each message that
  \<open>TaskValidator\<close> and \<open>_make_request\<close> build, with the numbers and strings that the
  message quotes.
\<close>

datatype value_error =
    TitleEmpty
  | TitleTooLong nat
  | ContentTooLong nat
  | PriorityInvalid int
  | DateInvalid string string
  | UnsupportedMethod string

datatype py_exc =
    ValueError value_error
  | KeyError string
  | OverflowError
  | UnicodeEncodeError

section \<open>Task filters (\<open>tools/tasks.py\<close>)\<close>

text \<open>
  A task as the service returns it, with the keys that the filters read. The filters
  call \<open>datetime.now(timezone.utc)\<close>; the reading of the clock is the argument \<open>now\<close>,
  an aware \<open>datetime\<close> with offset 0.
\<close>

record task =
  task_id :: "string option"
  task_title :: "string option"
  dueDate :: "string option"
  task_priority :: "int option"

definition is_task_due_today :: "task \<Rightarrow> datetime \<Rightarrow> bool" where
  "is_task_due_today task now =
     (case dueDate task of
        None \<Rightarrow> False
      | Some due_date \<Rightarrow>
          if due_date = [] then False
          else (case strptime due_date of
                  None \<Rightarrow> False
                | Some task_due \<Rightarrow> dt_ordinal task_due = dt_ordinal now))"

text \<open>Two aware datetimes are ordered by their instants in UTC.\<close>

definition utc_instant :: "datetime \<Rightarrow> int" where
  "utc_instant d = dt_ordinal d * day_us + dt_us d - dt_offset d"

definition is_task_overdue :: "task \<Rightarrow> datetime \<Rightarrow> bool" where
  "is_task_overdue task now =
     (case dueDate task of
        None \<Rightarrow> False
      | Some due_date \<Rightarrow>
          if due_date = [] then False
          else (case strptime due_date of
                  None \<Rightarrow> False
                | Some task_due \<Rightarrow> utc_instant task_due < utc_instant now))"

text \<open>
  \<open>timedelta(days=n)\<close> raises \<open>OverflowError\<close> beyond 999999999 days, and adding days to
  a date raises it when the result leaves the range of ordinals.
\<close>

definition timedelta_days :: "int \<Rightarrow> py_exc + int" where
  "timedelta_days n = (if 999999999 < \<bar>n\<bar> then Inl OverflowError else Inr n)"

definition add_days :: "int \<Rightarrow> int \<Rightarrow> py_exc + int" where
  "add_days ordinal n =
     (let ord = ordinal + n
      in if 0 < ord \<and> ord \<le> MAXORDINAL then Inr ord else Inl OverflowError)"

definition is_task_due_in_days :: "task \<Rightarrow> int \<Rightarrow> datetime \<Rightarrow> py_exc + bool" where
  "is_task_due_in_days task days now =
     (case dueDate task of
        None \<Rightarrow> Inr False
      | Some due_date \<Rightarrow>
          if due_date = [] then Inr False
          else (case strptime due_date of
                  None \<Rightarrow> Inr False
                | Some task_due \<Rightarrow>
                    (case timedelta_days days of
                       Inl e \<Rightarrow> Inl e
                     | Inr n \<Rightarrow>
                         (case add_days (dt_ordinal now) n of
                            Inl e \<Rightarrow> Inl e
                          | Inr target_date \<Rightarrow> Inr (dt_ordinal task_due = target_date)))))"

definition week_filter :: "task \<Rightarrow> datetime \<Rightarrow> py_exc + bool" where
  "week_filter task now =
     (case dueDate task of
        None \<Rightarrow> Inr False
      | Some due_date \<Rightarrow>
          if due_date = [] then Inr False
          else (case strptime due_date of
                  None \<Rightarrow> Inr False
                | Some task_due \<Rightarrow>
                    (let today = dt_ordinal now
                     in case add_days today 7 of
                          Inl e \<Rightarrow> Inl e
                        | Inr week_from_today \<Rightarrow>
                            Inr (today \<le> dt_ordinal task_due
                                 \<and> dt_ordinal task_due \<le> week_from_today))))"

section \<open>GTD filters (\<open>tools/gtd.py\<close>)\<close>

text \<open>The module's helpers delegate to the filters of \<open>tools/tasks.py\<close>.\<close>

definition gtd_is_task_due_today :: "task \<Rightarrow> datetime \<Rightarrow> bool" where
  "gtd_is_task_due_today task now = is_task_due_today task now"

definition gtd_is_task_overdue :: "task \<Rightarrow> datetime \<Rightarrow> bool" where
  "gtd_is_task_overdue task now = is_task_overdue task now"

definition gtd_is_task_due_in_days :: "task \<Rightarrow> int \<Rightarrow> datetime \<Rightarrow> py_exc + bool" where
  "gtd_is_task_due_in_days task days now = is_task_due_in_days task days now"

text \<open>\<open>task.get('priority', 0)\<close>\<close>

definition get_priority :: "task \<Rightarrow> int" where
  "get_priority task = (case task_priority task of None \<Rightarrow> 0 | Some p \<Rightarrow> p)"

definition engaged_filter :: "task \<Rightarrow> datetime \<Rightarrow> bool" where
  "engaged_filter task now =
     (let is_high_priority = (get_priority task = 5);
          is_overdue = gtd_is_task_overdue task now;
          is_today = gtd_is_task_due_today task now
      in is_high_priority \<or> is_overdue \<or> is_today)"

definition next_filter :: "task \<Rightarrow> datetime \<Rightarrow> py_exc + bool" where
  "next_filter task now =
     (let is_medium_priority = (get_priority task = 3)
      in case gtd_is_task_due_in_days task 1 now of
           Inl e \<Rightarrow> Inl e
         | Inr is_due_tomorrow \<Rightarrow> Inr (is_medium_priority \<or> is_due_tomorrow))"

section \<open>\<open>TaskValidator\<close> (\<open>ticktick_client.py\<close>)\<close>

text \<open>
  A validator returns \<open>Inr ()\<close> or raises: \<open>Inl\<close> of the \<open>ValueError\<close>.
  \<open>str.strip\<close> removes the white space of Python at both ends; \<open>not title.strip()\<close>
  holds when nothing remains.
\<close>

definition is_space :: "char \<Rightarrow> bool" where
  "is_space c = (c \<in> set [CHR 0x09, CHR 0x0A, CHR 0x0B, CHR 0x0C, CHR 0x0D, CHR 0x1C,
                           CHR 0x1D, CHR 0x1E, CHR 0x1F, CHR 0x20, CHR 0x85, CHR 0xA0])"

definition strip :: "string \<Rightarrow> string" where
  "strip s = rev (dropWhile is_space (rev (dropWhile is_space s)))"

definition MAX_TITLE_LENGTH :: nat where "MAX_TITLE_LENGTH = 500"
definition MAX_CONTENT_LENGTH :: nat where "MAX_CONTENT_LENGTH = 10000"
definition VALID_PRIORITIES :: "int list" where "VALID_PRIORITIES = [0, 1, 3, 5]"

definition validate_task_title :: "string \<Rightarrow> py_exc + unit" where
  "validate_task_title title =
     (if title = [] \<or> strip title = [] then Inl (ValueError TitleEmpty)
      else if MAX_TITLE_LENGTH < length title then Inl (ValueError (TitleTooLong (length title)))
      else Inr ())"

definition validate_content :: "string option \<Rightarrow> py_exc + unit" where
  "validate_content content =
     (case content of
        None \<Rightarrow> Inr ()
      | Some c \<Rightarrow>
          if c \<noteq> [] \<and> MAX_CONTENT_LENGTH < length c
          then Inl (ValueError (ContentTooLong (length c)))
          else Inr ())"

definition validate_priority :: "int \<Rightarrow> py_exc + unit" where
  "validate_priority priority =
     (if priority \<notin> set VALID_PRIORITIES then Inl (ValueError (PriorityInvalid priority))
      else Inr ())"

text \<open>
  \<open>datetime.fromisoformat\<close> is a parameter of the model: \<open>fromisoformat s\<close> tells
  whether the library parses \<open>s\<close> (it raises \<open>ValueError\<close> otherwise).
  \<open>str.replace("Z", "+00:00")\<close> replaces every \<open>Z\<close>.
\<close>

definition endswith :: "string \<Rightarrow> string \<Rightarrow> bool" where
  "endswith s suffix =
     (length suffix \<le> length s \<and> drop (length s - length suffix) s = suffix)"

definition replace_Z :: "string \<Rightarrow> string" where
  "replace_Z s = concat (map (\<lambda>c. if c = CHR ''Z'' then ''+00:00'' else [c]) s)"

definition validate_date :: "(string \<Rightarrow> bool) \<Rightarrow> string option \<Rightarrow> string \<Rightarrow> py_exc + unit" where
  "validate_date fromisoformat date_str field_name =
     (case date_str of
        None \<Rightarrow> Inr ()
      | Some d \<Rightarrow>
          if d = [] then Inr ()
          else if (if endswith d ''Z'' then fromisoformat (replace_Z d)
                   else if CHR ''+'' \<in> set d \<or> 2 \<le> count_list d CHR '':'' then fromisoformat d
                   else fromisoformat d)
          then Inr ()
          else Inl (ValueError (DateInvalid field_name d)))"

section \<open>The validation of a batch (\<open>_validate_task_data\<close>)\<close>

text \<open>
  One task of a batch, with the keys of the tool's docstring. The messages of
  \<open>_validate_task_data\<close> start with \<open>Task {task_index + 1}\<close>; their constructors carry
  that number.
\<close>

record task_data =
  title :: "string option"
  project_id :: "string option"
  content :: "string option"
  start_date :: "string option"
  due_date :: "string option"
  priority :: "int option"

datatype gate_error =
    TitleRequired nat
  | ProjectIdRequired nat
  | InvalidPriority nat int
  | InvalidDateFormat nat string string

definition check_date_field ::
  "(string \<Rightarrow> bool) \<Rightarrow> nat \<Rightarrow> string \<Rightarrow> string option \<Rightarrow> gate_error option" where
  "check_date_field fromisoformat task_index date_field date_str =
     (case date_str of
        None \<Rightarrow> None
      | Some d \<Rightarrow>
          if d = [] then None
          else if (if endswith d ''Z'' then fromisoformat (replace_Z d)
                   else if CHR ''+'' \<in> set d \<or> endswith d ''00'' \<or> endswith d ''30''
                   then fromisoformat d
                   else fromisoformat d)
          then None
          else Some (InvalidDateFormat (task_index + 1) date_field d))"

definition validate_task_data :: "(string \<Rightarrow> bool) \<Rightarrow> task_data \<Rightarrow> nat \<Rightarrow> gate_error option" where
  "validate_task_data fromisoformat td task_index =
     (if falsy_str (title td) then Some (TitleRequired (task_index + 1))
      else if falsy_str (project_id td) then Some (ProjectIdRequired (task_index + 1))
      else if priority td \<noteq> None \<and> the (priority td) \<notin> set [0, 1, 3, 5]
        then Some (InvalidPriority (task_index + 1) (the (priority td)))
      else (case check_date_field fromisoformat task_index ''start_date'' (start_date td) of
              Some e \<Rightarrow> Some e
            | None \<Rightarrow> check_date_field fromisoformat task_index ''due_date'' (due_date td)))"

section \<open>The transport (\<open>TickTickClient._make_request\<close>)\<close>

text \<open>
  What the \<open>requests\<close> library shows of a response: the status, the text of the body,
  and the value of \<open>response.json()\<close> (\<open>None\<close> when decoding the body fails). A call
  of the session returns a response or raises one of the library's exceptions.
  \<open>ConnectTimeout\<close> is a subclass of both \<open>ConnectionError\<close> and \<open>Timeout\<close>, and
  \<open>JSONDecodeError\<close> a subclass of \<open>RequestException\<close> only.
\<close>

record 'p response =
  status_code :: nat
  body_text :: string
  body_json :: "'p option"

datatype req_exc =
    ConnectionError
  | ConnectTimeout
  | ReadTimeout
  | JSONDecodeError
  | OtherRequestException

definition is_ConnectionError :: "req_exc \<Rightarrow> bool" where
  "is_ConnectionError e = (e = ConnectionError \<or> e = ConnectTimeout)"

definition is_Timeout :: "req_exc \<Rightarrow> bool" where
  "is_Timeout e = (e = ConnectTimeout \<or> e = ReadTimeout)"

datatype 'p sent_result = Response "'p response" | Raises req_exc

text \<open>The token endpoint answers with new tokens, or the call fails with a \<open>RequestException\<close>.\<close>

datatype token_reply = TokenRequestFails | Tokens "string option" "string option"

text \<open>
  The requests that leave the client, in the order sent: a call of the API with its
  method, URL, \<open>Authorization\<close> header and JSON body, or a call of the token endpoint
  with its URL, the refresh token and the credentials \<open>client_id:client_secret\<close> of the
  Basic authorization (before their base64 encoding).
\<close>

datatype json_value = JStr string | JInt int | JBool bool

datatype event =
    ApiRequest string string string "(string \<times> json_value) list option"
  | TokenRequest string string string

text \<open>
  The remote side is a parameter: it answers each request, given all requests sent so
  far (the last one is the request being answered). The adapter of the session repeats
  a request by itself on the statuses 429, 500, 502, 503 and 504; \<open>api\<close> gives what the
  call of the session returns or raises in the end.
\<close>

record 'p world =
  api :: "event list \<Rightarrow> 'p sent_result"
  token_endpoint :: "event list \<Rightarrow> token_reply"

text \<open>The client's attributes, and the requests it has sent so far.\<close>

record client =
  client_id :: "string option"
  client_secret :: "string option"
  access_token :: "string option"
  refresh_token :: "string option"
  authorization :: string
  base_url :: string
  token_url :: string
  sent :: "event list"

text \<open>\<open>f"Bearer {self.access_token}"\<close>\<close>

definition bearer :: "string option \<Rightarrow> string" where
  "bearer tok = ''Bearer '' @ (case tok of None \<Rightarrow> ''None'' | Some t \<Rightarrow> t)"

definition is_ascii :: "string \<Rightarrow> bool" where
  "is_ascii s = (\<forall>c \<in> set s. (of_char c :: nat) < 128)"

definition refresh_access_token :: "'p world \<Rightarrow> client \<Rightarrow> (py_exc + bool) \<times> client" where
  "refresh_access_token w c =
     (if falsy_str (refresh_token c) then (Inr False, c)
      else if falsy_str (client_id c) \<or> falsy_str (client_secret c) then (Inr False, c)
      else
        let auth_str = the (client_id c) @ '':'' @ the (client_secret c)
        in if \<not> is_ascii auth_str then (Inl UnicodeEncodeError, c)
           else
             let c1 = c\<lparr>sent := sent c @ [TokenRequest (token_url c) (the (refresh_token c)) auth_str]\<rparr>
             in case token_endpoint w (sent c1) of
                  TokenRequestFails \<Rightarrow> (Inr False, c1)
                | Tokens new_access new_refresh \<Rightarrow>
                    (Inr True,
                     c1\<lparr>access_token := new_access,
                        refresh_token := (case new_refresh of
                                            None \<Rightarrow> refresh_token c1
                                          | Some r \<Rightarrow> Some r),
                        authorization := bearer new_access\<rparr>))"

text \<open>
  The dictionary that \<open>_make_request\<close> returns: a dictionary with the keys \<open>error\<close>,
  \<open>status_code\<close> and \<open>type\<close>, the empty dictionary, or the decoded body. The text under
  \<open>error\<close> is one of the literal texts of the source, or a text built from a status or
  from \<open>str(e)\<close> of an exception.
\<close>

datatype message =
    Text string
  | ServerErrorText nat
  | HTTPErrorText nat
  | NetworkText req_exc
  | TimeoutText req_exc
  | ExceptionText req_exc

datatype 'p api_result =
    ErrorDict message "nat option" string
  | EmptyDict
  | Json 'p

text \<open>
  \<open>Response.raise_for_status\<close> raises \<open>HTTPError\<close> for a status from 400 to 599. The
  truth value of a \<open>Response\<close> is \<open>Response.ok\<close> (\<open>Response.__bool__\<close> returns
  \<open>self.ok\<close>): true exactly when \<open>raise_for_status\<close> would not raise.
\<close>

definition raises_for_status :: "'p response \<Rightarrow> bool" where
  "raises_for_status r = (400 \<le> status_code r \<and> status_code r < 600)"

definition response_bool :: "'p response \<Rightarrow> bool" where
  "response_bool r = (\<not> raises_for_status r)"

text \<open>
  The handler of \<open>HTTPError\<close>; \<open>r\<close> is \<open>e.response\<close>, the response whose
  \<open>raise_for_status\<close> raised. Its first line is
  \<open>status_code = e.response.status_code if e.response else None\<close>.
\<close>

definition handle_HTTPError :: "'p response \<Rightarrow> 'q api_result" where
  "handle_HTTPError r =
     (let status = (if response_bool r then Some (status_code r) else None)
      in if status = Some 401
           then ErrorDict (Text ''Authentication failed. Token expired or invalid.'') (Some 401) ''auth''
         else if status = Some 403
           then ErrorDict (Text ''Permission denied. You don't have access to this resource.'')
                  (Some 403) ''permission''
         else if status = Some 404
           then ErrorDict (Text ''Resource not found. It may have been deleted.'') (Some 404) ''not_found''
         else if status \<noteq> None \<and> the status \<noteq> 0 \<and> 500 \<le> the status
           then ErrorDict (ServerErrorText (the status)) status ''server_error''
         else ErrorDict (HTTPErrorText (status_code r)) status ''api'')"

text \<open>The handlers of \<open>ConnectionError\<close>, \<open>Timeout\<close> and \<open>RequestException\<close>, in this order.\<close>

definition handle_RequestException :: "req_exc \<Rightarrow> 'q api_result" where
  "handle_RequestException e =
     (if is_ConnectionError e then ErrorDict (NetworkText e) None ''network''
      else if is_Timeout e then ErrorDict (TimeoutText e) None ''timeout''
      else ErrorDict (ExceptionText e) None ''unknown'')"

text \<open>From \<open>response.raise_for_status()\<close> to the end of the \<open>try\<close> block.\<close>

definition finish :: "'p response \<Rightarrow> 'p api_result" where
  "finish r =
     (if raises_for_status r then handle_HTTPError r
      else if status_code r = 204 \<or> body_text r = [] then EmptyDict
      else (case body_json r of
              None \<Rightarrow> handle_RequestException JSONDecodeError
            | Some p \<Rightarrow> Json p))"

text \<open>
  One call of the session. Another method than \<open>GET\<close>, \<open>POST\<close> or \<open>DELETE\<close> raises
  \<open>ValueError\<close>, which no handler of \<open>_make_request\<close> catches.
\<close>

definition session_call ::
  "'p world \<Rightarrow> string \<Rightarrow> string \<Rightarrow> (string \<times> json_value) list option \<Rightarrow> client
     \<Rightarrow> (py_exc + 'p sent_result) \<times> client" where
  "session_call w method url data c =
     (if method = ''GET'' then
        (let c1 = c\<lparr>sent := sent c @ [ApiRequest method url (authorization c) None]\<rparr>
         in (Inr (api w (sent c1)), c1))
      else if method = ''POST'' then
        (let c1 = c\<lparr>sent := sent c @ [ApiRequest method url (authorization c) data]\<rparr>
         in (Inr (api w (sent c1)), c1))
      else if method = ''DELETE'' then
        (let c1 = c\<lparr>sent := sent c @ [ApiRequest method url (authorization c) None]\<rparr>
         in (Inr (api w (sent c1)), c1))
      else (Inl (ValueError (UnsupportedMethod method)), c))"

definition make_request ::
  "'p world \<Rightarrow> string \<Rightarrow> string \<Rightarrow> (string \<times> json_value) list option \<Rightarrow> client
     \<Rightarrow> (py_exc + 'p api_result) \<times> client" where
  "make_request w method endpoint data c =
     (let url = base_url c @ endpoint
      in case session_call w method url data c of
           (Inl e, c1) \<Rightarrow> (Inl e, c1)
         | (Inr (Raises e), c1) \<Rightarrow> (Inr (handle_RequestException e), c1)
         | (Inr (Response response), c1) \<Rightarrow>
             if status_code response = 401 then
               (case refresh_access_token w c1 of
                  (Inl e, c2) \<Rightarrow> (Inl e, c2)
                | (Inr False, c2) \<Rightarrow> (Inr (finish response), c2)
                | (Inr True, c2) \<Rightarrow>
                    (case session_call w method url data c2 of
                       (Inl e, c3) \<Rightarrow> (Inl e, c3)
                     | (Inr (Raises e), c3) \<Rightarrow> (Inr (handle_RequestException e), c3)
                     | (Inr (Response response2), c3) \<Rightarrow> (Inr (finish response2), c3)))
             else (Inr (finish response), c1))"

section \<open>The client's methods\<close>

definition get_project_with_data ::
  "'p world \<Rightarrow> string \<Rightarrow> client \<Rightarrow> (py_exc + 'p api_result) \<times> client" where
  "get_project_with_data w project c =
     make_request w ''GET'' (''/project/'' @ project @ ''/data'') None c"

text \<open>The body of the creation request, built after the five validators have passed.\<close>

definition task_body ::
  "string \<Rightarrow> string \<Rightarrow> string option \<Rightarrow> string option \<Rightarrow> string option \<Rightarrow> int
     \<Rightarrow> (string \<times> json_value) list" where
  "task_body ttl project cont start due prio =
     [(''title'', JStr ttl), (''projectId'', JStr project)]
     @ (if falsy_str cont then [] else [(''content'', JStr (the cont))])
     @ (if falsy_str start then [] else [(''startDate'', JStr (the start))])
     @ (if falsy_str due then [] else [(''dueDate'', JStr (the due))])
     @ [(''priority'', JInt prio), (''isAllDay'', JBool False)]"

definition create_task ::
  "(string \<Rightarrow> bool) \<Rightarrow> 'p world \<Rightarrow> string \<Rightarrow> string \<Rightarrow> string option \<Rightarrow> string option
     \<Rightarrow> string option \<Rightarrow> int \<Rightarrow> client \<Rightarrow> (py_exc + 'p api_result) \<times> client" where
  "create_task fromisoformat w ttl project cont start due prio c =
     (case validate_task_title ttl of
        Inl e \<Rightarrow> (Inl e, c)
      | Inr _ \<Rightarrow>
     (case validate_content cont of
        Inl e \<Rightarrow> (Inl e, c)
      | Inr _ \<Rightarrow>
     (case validate_priority prio of
        Inl e \<Rightarrow> (Inl e, c)
      | Inr _ \<Rightarrow>
     (case validate_date fromisoformat start ''start_date'' of
        Inl e \<Rightarrow> (Inl e, c)
      | Inr _ \<Rightarrow>
     (case validate_date fromisoformat due ''due_date'' of
        Inl e \<Rightarrow> (Inl e, c)
      | Inr _ \<Rightarrow>
          make_request w ''POST'' ''/task'' (Some (task_body ttl project cont start due prio)) c)))))"

section \<open>The scan of the projects (\<open>_get_project_tasks_by_filter\<close>)\<close>

text \<open>
  A project of the list, and the dictionary that \<open>get_project_with_data\<close> returns when
  the request succeeds. The scan is stated for any client: \<open>fetch\<close> stands for
  \<open>client.get_project_with_data\<close>, a function of the project id that returns a
  dictionary and changes the state \<open>'s\<close> of the client and of the remote side (the
  client returns the failure of a request as a dictionary; an exception that leaves it
  would end the scan). \<open>filter_func\<close> is a predicate that returns.
\<close>

record project =
  proj_id :: "string option"
  proj_name :: "string option"
  closed :: "bool option"

record project_data =
  tasks :: "task list option"

text \<open>\<open>project_data.get('tasks', [])\<close>: a dictionary of an error has no key \<open>tasks\<close>.\<close>

definition get_tasks :: "project_data api_result \<Rightarrow> task list" where
  "get_tasks project_data =
     (case project_data of
        ErrorDict m sc ty \<Rightarrow> []
      | EmptyDict \<Rightarrow> []
      | Json d \<Rightarrow> (case tasks d of None \<Rightarrow> [] | Some ts \<Rightarrow> ts))"

text \<open>
  The text that the function returns is the headline \<open>Found {len(projects)} projects\<close>
  followed by one block for each project that is not skipped. A block is kept as its
  parts: the number \<open>i\<close> of \<open>Project {i}\<close>, the project that \<open>format_project\<close> prints,
  the count of \<open>With {n} tasks\<close>, and the tasks printed with their numbers
  \<open>Task {t}\<close>.
\<close>

record block =
  blk_number :: nat
  blk_project :: project
  blk_count :: nat
  blk_tasks :: "(nat \<times> task) list"

datatype report = NoProjectsFound | Found nat "block list"

text \<open>\<open>enumerate(xs, 1)\<close>\<close>

definition enumerate1 :: "'a list \<Rightarrow> (nat \<times> 'a) list" where
  "enumerate1 xs = zip [1 ..< Suc (length xs)] xs"

text \<open>
  The loop \<open>for i, project in enumerate(projects, 1)\<close>; \<open>i\<close> is the number of the first
  project of the list that is left.
\<close>

definition matching_tasks :: "(task \<Rightarrow> bool) \<Rightarrow> task list \<Rightarrow> (nat \<times> task) list" where
  "matching_tasks filter_func ts = filter (\<lambda>(t, task). filter_func task) (enumerate1 ts)"

fun scan_loop ::
  "(string \<Rightarrow> 's \<Rightarrow> project_data api_result \<times> 's) \<Rightarrow> (task \<Rightarrow> bool)
     \<Rightarrow> nat \<Rightarrow> project list \<Rightarrow> block list \<Rightarrow> 's \<Rightarrow> block list \<times> 's" where
  "scan_loop fetch filter_func i [] result s = (result, s)"
| "scan_loop fetch filter_func i (p # rest) result s =
     (if closed p = Some True then scan_loop fetch filter_func (Suc i) rest result s
      else
        case fetch (case proj_id p of None \<Rightarrow> ''No ID'' | Some x \<Rightarrow> x) s of
          (project_data, s1) \<Rightarrow>
            if get_tasks project_data = [] then
              scan_loop fetch filter_func (Suc i) rest
                (result @ [\<lparr>blk_number = i, blk_project = p, blk_count = 0, blk_tasks = []\<rparr>]) s1
            else
              scan_loop fetch filter_func (Suc i) rest
                (result @ [\<lparr>blk_number = i, blk_project = p,
                   blk_count = length (matching_tasks filter_func (get_tasks project_data)),
                   blk_tasks = matching_tasks filter_func (get_tasks project_data)\<rparr>]) s1)"

definition get_project_tasks_by_filter ::
  "(string \<Rightarrow> 's \<Rightarrow> project_data api_result \<times> 's) \<Rightarrow> project list \<Rightarrow> (task \<Rightarrow> bool)
     \<Rightarrow> 's \<Rightarrow> report \<times> 's" where
  "get_project_tasks_by_filter fetch projects filter_func s =
     (if projects = [] then (NoProjectsFound, s)
      else
        case scan_loop fetch filter_func 1 projects [] s of
          (blocks, s1) \<Rightarrow> (Found (length projects) blocks, s1))"

text \<open>
  A client that keeps the ids it was asked for, in order, beside the state of the
  client it wraps: the calls of \<open>get_project_with_data\<close> can then be read off the state.
\<close>

definition recording_fetch ::
  "(string \<Rightarrow> 's \<Rightarrow> project_data api_result \<times> 's)
     \<Rightarrow> string \<Rightarrow> string list \<times> 's \<Rightarrow> project_data api_result \<times> (string list \<times> 's)" where
  "recording_fetch fetch pid cs =
     (case fetch pid (snd cs) of (r, s1) \<Rightarrow> (r, (fst cs @ [pid], s1)))"

section \<open>The creation of a batch (\<open>batch_create_tasks_tool\<close>)\<close>

text \<open>
  The tool answers with a text. The model keeps what the text is built from: the
  list of validation messages, or the two lists \<open>created_tasks\<close> and \<open>failed_tasks\<close>.
  An entry of \<open>failed_tasks\<close> is the text \<open>Task {i + 1} ('{title}'): {reason}\<close>, kept
  as the number, the title and the reason. The argument is a list of dictionaries, as
  the signature of the tool says, so the two tests with \<open>isinstance\<close> pass.
\<close>

datatype fail_reason =
    AuthenticationFailed401
  | PermissionDenied403
  | ProjectNotFound404
  | NetworkError
  | ErrorMessage message
  | ExceptionStr py_exc

datatype 'p batch_outcome =
    NoTasksProvided
  | ValidationErrorsFound "gate_error list"
  | Completed "(nat \<times> string \<times> 'p api_result) list" "(nat \<times> string \<times> fail_reason) list"

text \<open>
  The first loop, \<open>for i, task_data in enumerate(tasks)\<close>: the messages of the tasks
  that fail \<open>_validate_task_data\<close>, in the order of the tasks; \<open>i\<close> is the index of the
  first task of the list that is left.
\<close>

fun validation_loop :: "(string \<Rightarrow> bool) \<Rightarrow> nat \<Rightarrow> task_data list \<Rightarrow> gate_error list
     \<Rightarrow> gate_error list" where
  "validation_loop fromisoformat i [] validation_errors = validation_errors"
| "validation_loop fromisoformat i (td # rest) validation_errors =
     (case validate_task_data fromisoformat td i of
        Some error \<Rightarrow> validation_loop fromisoformat (Suc i) rest (validation_errors @ [error])
      | None \<Rightarrow> validation_loop fromisoformat (Suc i) rest validation_errors)"

text \<open>
  The body of the second loop, \<open>for i, task_data in enumerate(tasks)\<close>, for one
  task, inside its \<open>try\<close>. \<open>create\<close> stands for
  \<open>client.create_task\<close>; it may raise. The result is \<open>Inr\<close> of the entry for
  \<open>created_tasks\<close> or \<open>Inl\<close> of the entry for \<open>failed_tasks\<close>.
\<close>

type_synonym ('p, 's) creator =
  "string \<Rightarrow> string \<Rightarrow> string option \<Rightarrow> string option \<Rightarrow> string option \<Rightarrow> int \<Rightarrow> 's
     \<Rightarrow> (py_exc + 'p api_result) \<times> 's"

definition title_or_unknown :: "task_data \<Rightarrow> string" where
  "title_or_unknown td = (case title td of None \<Rightarrow> ''Unknown'' | Some t \<Rightarrow> t)"

definition failure_reason :: "string \<Rightarrow> message \<Rightarrow> fail_reason" where
  "failure_reason error_type error_msg =
     (if error_type = ''auth'' then AuthenticationFailed401
      else if error_type = ''permission'' then PermissionDenied403
      else if error_type = ''not_found'' then ProjectNotFound404
      else if error_type = ''network'' then NetworkError
      else ErrorMessage error_msg)"

definition create_one ::
  "('p, 's) creator \<Rightarrow> nat \<Rightarrow> task_data \<Rightarrow> 's
     \<Rightarrow> ((nat \<times> string \<times> fail_reason) + (nat \<times> string \<times> 'p api_result)) \<times> 's" where
  "create_one create i td s =
     (case title td of
        None \<Rightarrow> (Inl (i + 1, title_or_unknown td, ExceptionStr (KeyError ''title'')), s)
      | Some ttl \<Rightarrow>
          (case project_id td of
             None \<Rightarrow> (Inl (i + 1, title_or_unknown td, ExceptionStr (KeyError ''project_id'')), s)
           | Some project \<Rightarrow>
               (case create ttl project (content td) (start_date td) (due_date td)
                       (case priority td of None \<Rightarrow> 0 | Some p \<Rightarrow> p) s of
                  (Inl e, s1) \<Rightarrow> (Inl (i + 1, title_or_unknown td, ExceptionStr e), s1)
                | (Inr result, s1) \<Rightarrow>
                    (case result of
                       ErrorDict error_msg sc error_type \<Rightarrow>
                         (Inl (i + 1, ttl, failure_reason error_type error_msg), s1)
                     | EmptyDict \<Rightarrow> (Inr (i + 1, ttl, result), s1)
                     | Json task_obj \<Rightarrow> (Inr (i + 1, ttl, result), s1)))))"

fun create_loop ::
  "('p, 's) creator \<Rightarrow> nat \<Rightarrow> task_data list
     \<Rightarrow> (nat \<times> string \<times> 'p api_result) list \<Rightarrow> (nat \<times> string \<times> fail_reason) list \<Rightarrow> 's
     \<Rightarrow> ((nat \<times> string \<times> 'p api_result) list \<times> (nat \<times> string \<times> fail_reason) list) \<times> 's" where
  "create_loop create i [] created_tasks failed_tasks s = ((created_tasks, failed_tasks), s)"
| "create_loop create i (td # rest) created_tasks failed_tasks s =
     (case create_one create i td s of
        (Inr entry, s1) \<Rightarrow> create_loop create (Suc i) rest (created_tasks @ [entry]) failed_tasks s1
      | (Inl entry, s1) \<Rightarrow> create_loop create (Suc i) rest created_tasks (failed_tasks @ [entry]) s1)"

definition batch_create_tasks_tool ::
  "(string \<Rightarrow> bool) \<Rightarrow> ('p, 's) creator \<Rightarrow> task_data list \<Rightarrow> 's \<Rightarrow> 'p batch_outcome \<times> 's" where
  "batch_create_tasks_tool fromisoformat create task_list s =
     (if task_list = [] then (NoTasksProvided, s)
      else
        let validation_errors = validation_loop fromisoformat 0 task_list []
        in if validation_errors \<noteq> [] then (ValidationErrorsFound validation_errors, s)
           else
             case create_loop create 0 task_list [] [] s of
               ((created_tasks, failed_tasks), s1) \<Rightarrow> (Completed created_tasks failed_tasks, s1))"

text \<open>
  A client that keeps the arguments of every call of \<open>create_task\<close>, in order, beside
  the state of the client it wraps.
\<close>

definition recording_create ::
  "('p, 's) creator \<Rightarrow> ('p, (string \<times> string) list \<times> 's) creator" where
  "recording_create create ttl project cont start due prio cs =
     (case create ttl project cont start due prio (snd cs) of
        (r, s1) \<Rightarrow> (r, (fst cs @ [(ttl, project)], s1)))"

section \<open>Notions of the specification\<close>

text \<open>
  The calendar date of an aware \<open>datetime\<close> taken in UTC: the day of its instant.
\<close>

definition utc_date :: "datetime \<Rightarrow> int" where
  "utc_date d = utc_instant d div day_us"

text \<open>
  \<open>dueToday\<close> in the words of the specification: the \<open>dueDate\<close> parses and its calendar
  date taken in UTC equals the calendar date of \<open>now\<close> in UTC.
\<close>

definition spec_dueToday :: "task \<Rightarrow> datetime \<Rightarrow> bool" where
  "spec_dueToday task now =
     (case dueDate task of
        None \<Rightarrow> False
      | Some due \<Rightarrow>
          (case strptime due of
             None \<Rightarrow> False
           | Some task_due \<Rightarrow> utc_date task_due = utc_date now))"

text \<open>
  \<open>overdue\<close> in the words of the specification: the \<open>dueDate\<close> parses and its full
  timestamp is strictly before \<open>now\<close>.
\<close>

definition spec_overdue :: "task \<Rightarrow> datetime \<Rightarrow> bool" where
  "spec_overdue task now =
     (case dueDate task of
        None \<Rightarrow> False
      | Some due \<Rightarrow>
          (case strptime due of
             None \<Rightarrow> False
           | Some task_due \<Rightarrow> utc_instant task_due < utc_instant now))"

text \<open>
  A numeric offset, as the specification requires one of a \<open>dueDate\<close>: a sign \<open>+\<close> or
  \<open>-\<close> after the \<open>T\<close> that opens the time of day.
\<close>

definition spec_numeric_offset :: "string \<Rightarrow> bool" where
  "spec_numeric_offset s =
     (let time = dropWhile (\<lambda>c. c \<noteq> CHR ''T'') s
      in CHR ''+'' \<in> set time \<or> CHR ''-'' \<in> set time)"

text \<open>A reading of the clock: an aware \<open>datetime\<close> in UTC within the range of the library.\<close>

definition utc_now :: "datetime \<Rightarrow> bool" where
  "utc_now now =
     (0 < dt_ordinal now \<and> dt_ordinal now \<le> MAXORDINAL
      \<and> 0 \<le> dt_us now \<and> dt_us now < day_us \<and> dt_offset now = 0)"

text \<open>
  The outcomes of the calls of \<open>create_task\<close> that the second loop makes for a batch
  that has passed the validation, in the order of the calls; a call fails when it raises
  or returns a dictionary with the key \<open>error\<close>.
\<close>

fun call_outcomes :: "('p, 's) creator \<Rightarrow> task_data list \<Rightarrow> 's \<Rightarrow> (py_exc + 'p api_result) list" where
  "call_outcomes create [] s = []"
| "call_outcomes create (td # rest) s =
     (case create (the (title td)) (the (project_id td)) (content td) (start_date td) (due_date td)
             (case priority td of None \<Rightarrow> 0 | Some p \<Rightarrow> p) s of
        (r, s1) \<Rightarrow> r # call_outcomes create rest s1)"

definition call_failed :: "py_exc + 'p api_result \<Rightarrow> bool" where
  "call_failed r =
     (case r of
        Inl e \<Rightarrow> True
      | Inr (ErrorDict m sc ty) \<Rightarrow> True
      | Inr _ \<Rightarrow> False)"

text \<open>
  The entry that the second loop adds for the task with index \<open>k\<close> when its call of
  \<open>create_task\<close> has the outcome \<open>r\<close>: \<open>Inl\<close> for \<open>failed_tasks\<close>, \<open>Inr\<close> for
  \<open>created_tasks\<close>.
\<close>

definition entry_of ::
  "nat \<Rightarrow> task_data \<Rightarrow> py_exc + 'p api_result
     \<Rightarrow> (nat \<times> string \<times> fail_reason) + (nat \<times> string \<times> 'p api_result)" where
  "entry_of k td r =
     (case r of
        Inl e \<Rightarrow> Inl (Suc k, the (title td), ExceptionStr e)
      | Inr (ErrorDict m sc ty) \<Rightarrow> Inl (Suc k, the (title td), failure_reason ty m)
      | Inr EmptyDict \<Rightarrow> Inr (Suc k, the (title td), EmptyDict)
      | Inr (Json p) \<Rightarrow> Inr (Suc k, the (title td), Json p))"

text \<open>
  The entries of a whole batch, in the order of the tasks (\<open>i\<close> is the index of the
  first task), and the two lists they are sorted into.
\<close>

definition entries ::
  "('p, 's) creator \<Rightarrow> nat \<Rightarrow> task_data list \<Rightarrow> 's
     \<Rightarrow> ((nat \<times> string \<times> fail_reason) + (nat \<times> string \<times> 'p api_result)) list" where
  "entries create i tds s =
     map (\<lambda>(k, td, r). entry_of k td r)
       (zip [i ..< i + length tds] (zip tds (call_outcomes create tds s)))"

definition lefts :: "('a + 'b) list \<Rightarrow> 'a list" where
  "lefts xs = List.map_filter (\<lambda>x. case x of Inl a \<Rightarrow> Some a | Inr b \<Rightarrow> None) xs"

definition rights :: "('a + 'b) list \<Rightarrow> 'b list" where
  "rights xs = List.map_filter (\<lambda>x. case x of Inl a \<Rightarrow> None | Inr b \<Rightarrow> Some b) xs"

text \<open>The messages of all tasks that fail \<open>_validate_task_data\<close>, by index.\<close>

definition gate_errors :: "(string \<Rightarrow> bool) \<Rightarrow> task_data list \<Rightarrow> gate_error list" where
  "gate_errors fromisoformat tds =
     List.map_filter (\<lambda>i. validate_task_data fromisoformat (tds ! i) i) [0 ..< length tds]"

text \<open>
  A task of a batch that has the keys \<open>title\<close> and \<open>project_id\<close>, and the number
  \<open>i + 1\<close> that an entry of either list starts with.
\<close>

definition has_ids :: "task_data \<Rightarrow> bool" where
  "has_ids td = (title td \<noteq> None \<and> project_id td \<noteq> None)"

definition num :: "(nat \<times> 'a) + (nat \<times> 'b) \<Rightarrow> nat" where
  "num x = (case x of Inl a \<Rightarrow> fst a | Inr b \<Rightarrow> fst b)"

text \<open>
  The dictionaries that the fetches of a scan return, one for each project that is not
  closed, in the order of the projects.
\<close>

definition is_open :: "project \<Rightarrow> bool" where
  "is_open p = (closed p \<noteq> Some True)"

definition id_of :: "project \<Rightarrow> string" where
  "id_of p = (case proj_id p of None \<Rightarrow> ''No ID'' | Some x \<Rightarrow> x)"

fun fetch_outcomes ::
  "(string \<Rightarrow> 's \<Rightarrow> project_data api_result \<times> 's) \<Rightarrow> project list \<Rightarrow> 's
     \<Rightarrow> project_data api_result list" where
  "fetch_outcomes fetch [] s = []"
| "fetch_outcomes fetch (p # rest) s =
     (if is_open p
      then (case fetch (id_of p) s of (r, s1) \<Rightarrow> r # fetch_outcomes fetch rest s1)
      else fetch_outcomes fetch rest s)"

text \<open>
  The block of the project with number \<open>i\<close> whose fetch returned \<open>r\<close>; without tasks
  the list of matching tasks is empty and the count is 0, as in the branch
  \<open>if not tasks\<close>.
\<close>

definition block_of :: "(task \<Rightarrow> bool) \<Rightarrow> nat \<Rightarrow> project \<Rightarrow> project_data api_result \<Rightarrow> block" where
  "block_of filter_func i p r =
     \<lparr>blk_number = i, blk_project = p,
      blk_count = length (matching_tasks filter_func (get_tasks r)),
      blk_tasks = matching_tasks filter_func (get_tasks r)\<rparr>"

section \<open>Example inputs\<close>

text \<open>
  The clock at 2025-01-15T12:00Z (739266 is the ordinal of 2025-01-15) and at the start
  of 9999-12-31, the last day of the library (ordinal 3652059), and tasks as the service
  returns them.
\<close>

definition noon_2025_01_15 :: datetime where
  "noon_2025_01_15 = \<lparr>dt_ordinal = 739266, dt_us = 43200000000, dt_offset = 0\<rparr>"

definition midnight_9999_12_31 :: datetime where
  "midnight_9999_12_31 = \<lparr>dt_ordinal = 3652059, dt_us = 0, dt_offset = 0\<rparr>"

definition task_due_0800_utc :: task where
  "task_due_0800_utc =
     \<lparr>task_id = Some ''t1'', task_title = Some ''Report'',
      dueDate = Some ''2025-01-15T08:00:00.000+0000'', task_priority = Some 0\<rparr>"

definition task_due_plain_date :: task where
  "task_due_plain_date =
     \<lparr>task_id = Some ''t3'', task_title = Some ''Plain date'',
      dueDate = Some ''2025-01-15'', task_priority = Some 1\<rparr>"

text \<open>
  Tasks of priority 0 due at 23:00 of 2025-01-15 in the offset -05:00 (the instant
  2025-01-16T04:00Z), at 08:00 of 2025-01-15 with the offset written \<open>Z\<close>, and on the next
  day; a task of priority 5 without \<open>dueDate\<close>.
\<close>

definition task_due_2300_minus_0500 :: task where
  "task_due_2300_minus_0500 =
     \<lparr>task_id = Some ''t2'', task_title = Some ''Call'',
      dueDate = Some ''2025-01-15T23:00:00.000-0500'', task_priority = Some 0\<rparr>"

definition task_due_0800_z :: task where
  "task_due_0800_z =
     \<lparr>task_id = Some ''t4'', task_title = Some ''Stand-up'',
      dueDate = Some ''2025-01-15T08:00:00.000Z'', task_priority = Some 0\<rparr>"

definition task_due_tomorrow :: task where
  "task_due_tomorrow =
     \<lparr>task_id = Some ''t5'', task_title = Some ''Review'',
      dueDate = Some ''2025-01-16T09:00:00.000+0000'', task_priority = Some 0\<rparr>"

definition task_high_priority :: task where
  "task_high_priority =
     \<lparr>task_id = Some ''t6'', task_title = Some ''Urgent'', dueDate = None,
      task_priority = Some 5\<rparr>"

text \<open>
  Batches: three tasks of which the second has priority 2; three tasks that pass the
  validation; a task whose title has 501 characters, followed by a short one.
\<close>

definition spec_of :: "string \<Rightarrow> int option \<Rightarrow> task_data" where
  "spec_of ttl prio =
     \<lparr>title = Some ttl, project_id = Some ''p1'', content = None, start_date = None,
      due_date = None, priority = prio\<rparr>"

definition batch_with_priority_2 :: "task_data list" where
  "batch_with_priority_2 =
     [spec_of ''Write report'' (Some 1), spec_of ''Call bank'' (Some 2),
      spec_of ''Book flight'' None]"

definition batch_of_three :: "task_data list" where
  "batch_of_three =
     [spec_of ''Write report'' (Some 1), spec_of ''Call bank'' (Some 3),
      spec_of ''Book flight'' None]"

definition batch_with_long_title :: "task_data list" where
  "batch_with_long_title = [spec_of (replicate 501 CHR ''A'') None, spec_of ''Short'' (Some 5)]"

text \<open>
  Clients for the batches: one whose every call succeeds, and one whose second call
  returns the dictionary of a connection failure; their state counts the calls.
\<close>

definition created_task :: "string \<Rightarrow> task" where
  "created_task ttl =
     \<lparr>task_id = Some ''new'', task_title = Some ttl, dueDate = None, task_priority = Some 0\<rparr>"

definition always_creates :: "(task, nat) creator" where
  "always_creates ttl project cont start due prio n = (Inr (Json (created_task ttl)), Suc n)"

definition second_call_fails :: "(task, nat) creator" where
  "second_call_fails ttl project cont start due prio n =
     (if n = 1 then Inr (ErrorDict (NetworkText ConnectionError) None ''network'')
      else Inr (Json (created_task ttl)), Suc n)"

text \<open>
  A client with an access token and no refresh token, one with all credentials, and
  remote sides: one that answers every request with the status 200 and a task, one
  that answers with a fixed status and a body that is not empty, one that answers 401
  until the token endpoint has been called and 200 afterwards.
\<close>

definition client_without_refresh :: client where
  "client_without_refresh =
     \<lparr>client_id = Some ''id'', client_secret = Some ''secret'', access_token = Some ''old'',
      refresh_token = None, authorization = ''Bearer old'',
      base_url = ''https://api.ticktick.com/open/v1'',
      token_url = ''https://ticktick.com/oauth/token'', sent = []\<rparr>"

definition client_with_refresh :: client where
  "client_with_refresh = client_without_refresh\<lparr>refresh_token := Some ''refresh''\<rparr>"

definition answers_200 :: "task world" where
  "answers_200 =
     \<lparr>api = (\<lambda>log. Response \<lparr>status_code = 200, body_text = ''{...}'',
                               body_json = Some (created_task ''Short'')\<rparr>),
      token_endpoint = (\<lambda>log. TokenRequestFails)\<rparr>"

definition answers_status :: "nat \<Rightarrow> task world" where
  "answers_status n =
     \<lparr>api = (\<lambda>log. Response \<lparr>status_code = n, body_text = ''{...}'', body_json = None\<rparr>),
      token_endpoint = (\<lambda>log. TokenRequestFails)\<rparr>"

definition is_token_request :: "event \<Rightarrow> bool" where
  "is_token_request e = (case e of TokenRequest u r a \<Rightarrow> True | ApiRequest m u a d \<Rightarrow> False)"

definition expired_then_ok :: "task world" where
  "expired_then_ok =
     \<lparr>api = (\<lambda>log. if list_ex is_token_request log
                     then Response \<lparr>status_code = 200, body_text = ''{...}'',
                                     body_json = Some (created_task ''Short'')\<rparr>
                     else Response \<lparr>status_code = 401, body_text = ''{...}'', body_json = None\<rparr>),
      token_endpoint = (\<lambda>log. Tokens (Some ''new'') None)\<rparr>"

text \<open>
  Projects, and clients for a scan; their state counts the fetches. The first client
  returns one task for every project. For the project \<open>p1\<close> the second returns the
  dictionary that \<open>_make_request\<close> returns when the connection fails, and the third a
  project without tasks; for the other projects both return one task.
\<close>

definition archived_project :: project where
  "archived_project = \<lparr>proj_id = Some ''p0'', proj_name = Some ''Archive'', closed = Some True\<rparr>"

definition work_project :: project where
  "work_project = \<lparr>proj_id = Some ''p1'', proj_name = Some ''Work'', closed = Some False\<rparr>"

definition home_project :: project where
  "home_project = \<lparr>proj_id = Some ''p2'', proj_name = Some ''Home'', closed = None\<rparr>"

definition fetch_one_task :: "string \<Rightarrow> nat \<Rightarrow> project_data api_result \<times> nat" where
  "fetch_one_task pid n = (Json \<lparr>tasks = Some [task_due_0800_utc]\<rparr>, Suc n)"

definition fetch_p1_fails :: "string \<Rightarrow> nat \<Rightarrow> project_data api_result \<times> nat" where
  "fetch_p1_fails pid n =
     (if pid = ''p1'' then handle_RequestException ConnectionError
      else Json \<lparr>tasks = Some [task_due_0800_utc]\<rparr>, Suc n)"

definition fetch_p1_empty :: "string \<Rightarrow> nat \<Rightarrow> project_data api_result \<times> nat" where
  "fetch_p1_empty pid n =
     (if pid = ''p1'' then Json \<lparr>tasks = Some []\<rparr>
      else Json \<lparr>tasks = Some [task_due_0800_utc]\<rparr>, Suc n)"

section \<open>Facts about the parser\<close>

lemma in_bind:
  "(v, r) \<in> set (bind p f s) \<longleftrightarrow> (\<exists>a r1. (a, r1) \<in> set (p s) \<and> (v, r) \<in> set (f a r1))"
  by (auto simp: bind_def)

lemma in_alt: "x \<in> set (alt p q s) \<longleftrightarrow> x \<in> set (p s) \<or> x \<in> set (q s)"
  by (simp add: alt_def)

lemma in_ret: "(v, r) \<in> set (ret a s) \<longleftrightarrow> v = a \<and> r = s"
  by (auto simp: ret_def)

lemma in_lit: "(v, r) \<in> set (lit c s) \<longleftrightarrow> s = c # r"
  by (cases s) auto

lemma in_dig: "(v, r) \<in> set (dig lo hi s) \<Longrightarrow> \<exists>c. s = c # r \<and> c \<noteq> CHR ''.''"
  by (cases s) (auto simp: digit_of_def split: option.splits if_splits)

lemma in_dd: "(v, r) \<in> set (dd a b c d s) \<Longrightarrow> \<exists>pre. s = pre @ r"
  by (auto simp: dd_def in_bind in_ret dest!: in_dig)

lemma in_re_Y: "(v, r) \<in> set (re_Y s) \<Longrightarrow> \<exists>pre. s = pre @ r"
  by (auto simp: re_Y_def in_bind in_ret dest!: in_dd)

lemma in_re_m: "(v, r) \<in> set (re_m s) \<Longrightarrow> \<exists>pre. s = pre @ r"
  by (auto simp: re_m_def in_alt dest!: in_dd in_dig)

lemma in_re_d: "(v, r) \<in> set (re_d s) \<Longrightarrow> \<exists>pre. s = pre @ r"
  by (auto simp: re_d_def in_alt in_bind in_lit dest!: in_dd in_dig)

lemma in_re_H: "(v, r) \<in> set (re_H s) \<Longrightarrow> \<exists>pre. s = pre @ r"
  by (auto simp: re_H_def in_alt dest!: in_dd in_dig)

lemma in_re_M: "(v, r) \<in> set (re_M s) \<Longrightarrow> \<exists>pre. s = pre @ r"
  by (auto simp: re_M_def in_alt dest!: in_dd in_dig)

lemma in_re_S: "(v, r) \<in> set (re_S s) \<Longrightarrow> \<exists>pre. s = pre @ r"
  by (auto simp: re_S_def in_alt dest!: in_dd in_dig)

text \<open>Every string that the format matches has the point of the fraction.\<close>

lemma regex_has_point:
  assumes "(g, r) \<in> set (format_regex s)"
  shows "CHR ''.'' \<in> set s"
proof -
  from assms obtain r11 r12 S where "(S, r11) \<in> set (re_S r12)" and "\<exists>pre. s = pre @ r12"
    and "\<exists>r13. r11 = CHR ''.'' # r13"
    unfolding format_regex_def in_bind in_lit lit_T_def in_alt
    by (fastforce dest!: in_re_Y in_re_m in_re_d in_re_H in_re_M)
  then show ?thesis
    by (auto dest!: in_re_S)
qed

lemma no_fraction_unparseable: "CHR ''.'' \<notin> set s \<Longrightarrow> strptime s = None"
  using regex_has_point[of _ _ s]
  by (auto simp: strptime_def split: list.splits) (metis list.set_intros(1))

lemma strptime_us_range:
  assumes "strptime s = Some d"
  shows "0 \<le> dt_us d \<and> dt_us d < day_us"
  using assms
  by (auto simp: strptime_def build_datetime_def check_time_fields_def day_us_def
      split: list.splits if_splits option.splits)

lemma utc_date_of_utc:
  assumes "0 \<le> dt_us d" and "dt_us d < day_us" and "dt_offset d = 0"
  shows "utc_date d = dt_ordinal d"
  using assms by (simp add: utc_date_def utc_instant_def day_us_def)

text \<open>Some parses: 739266 is the ordinal of 2025-01-15.\<close>

lemma parse_0800_utc:
  "strptime ''2025-01-15T08:00:00.000+0000''
     = Some \<lparr>dt_ordinal = 739266, dt_us = 28800000000, dt_offset = 0\<rparr>"
  by code_simp

lemma parse_2300_minus_0500:
  "strptime ''2025-01-15T23:00:00.000-0500''
     = Some \<lparr>dt_ordinal = 739266, dt_us = 82800000000, dt_offset = - 18000000000\<rparr>"
  by code_simp

lemma parse_0800_z:
  "strptime ''2025-01-15T08:00:00.000Z''
     = Some \<lparr>dt_ordinal = 739266, dt_us = 28800000000, dt_offset = 0\<rparr>"
  by code_simp

lemma parse_tomorrow:
  "strptime ''2025-01-16T09:00:00.000+0000''
     = Some \<lparr>dt_ordinal = 739267, dt_us = 32400000000, dt_offset = 0\<rparr>"
  by code_simp

lemma parse_plain_date: "strptime ''2025-01-15'' = None"
  by code_simp

lemma parse_without_milliseconds: "strptime ''2025-01-15T10:30:00'' = None"
  by code_simp

lemma parse_without_milliseconds_offset: "strptime ''2025-01-15T10:30:00+00:00'' = None"
  by code_simp

text \<open>
  A plain date that \<open>datetime.fromisoformat\<close> accepts passes both validations of dates,
  and the format of the predicates rejects it.
\<close>

lemma plain_date_valid_but_unparseable:
  assumes "fromisoformat ''2025-01-15''"
  shows "validate_date fromisoformat (Some ''2025-01-15'') ''due_date'' = Inr ()
       \<and> check_date_field fromisoformat i ''due_date'' (Some ''2025-01-15'') = None
       \<and> strptime ''2025-01-15'' = None"
  using assms
  by (simp add: validate_date_def check_date_field_def endswith_def parse_plain_date)

section \<open>The date predicates\<close>

text \<open>
  C5, as the specification states it, fails: \<open>dueToday\<close> does not compare the calendar
  date of \<open>dueDate\<close> taken in UTC. The \<open>dueDate\<close> 2025-01-15T23:00:00.000-0500 is the
  instant 2025-01-16T04:00Z; at \<open>now\<close> = 2025-01-15T12:00Z the filter says "due today",
  and the UTC date of the \<open>dueDate\<close> is the day after.
\<close>

theorem due_today_utc_counterexample:
  "is_task_due_today
     \<lparr>task_id = Some ''t1'', task_title = Some ''Call'',
      dueDate = Some ''2025-01-15T23:00:00.000-0500'', task_priority = Some 0\<rparr>
     \<lparr>dt_ordinal = 739266, dt_us = 43200000000, dt_offset = 0\<rparr>
   \<and> \<not> spec_dueToday
     \<lparr>task_id = Some ''t1'', task_title = Some ''Call'',
      dueDate = Some ''2025-01-15T23:00:00.000-0500'', task_priority = Some 0\<rparr>
     \<lparr>dt_ordinal = 739266, dt_us = 43200000000, dt_offset = 0\<rparr>"
  by (simp add: is_task_due_today_def spec_dueToday_def parse_2300_minus_0500
      utc_date_def utc_instant_def day_us_def)

text \<open>
  C5, amended: for every task and every reading \<open>now\<close> of the clock, \<open>dueToday\<close> is true
  if and only if the \<open>dueDate\<close> parses and the calendar date written in it (the date in
  the \<open>dueDate\<close>'s own offset) equals the UTC calendar date of \<open>now\<close>; for a \<open>dueDate\<close>
  with offset zero the written date is the date in UTC.
\<close>

theorem due_today_compares_written_date:
  assumes "utc_now now"
  shows "(is_task_due_today task now \<longleftrightarrow>
            (\<exists>s d. dueDate task = Some s \<and> strptime s = Some d \<and> dt_ordinal d = utc_date now))
       \<and> (\<forall>s d. strptime s = Some d \<and> dt_offset d = 0 \<longrightarrow> utc_date d = dt_ordinal d)"
proof -
  from assms have now: "utc_date now = dt_ordinal now"
    by (simp add: utc_now_def utc_date_of_utc)
  have empty: "strptime [] = None"
    by (simp add: no_fraction_unparseable)
  have "is_task_due_today task now \<longleftrightarrow>
          (\<exists>s d. dueDate task = Some s \<and> strptime s = Some d \<and> dt_ordinal d = utc_date now)"
    using empty by (auto simp: is_task_due_today_def now split: option.splits)
  moreover have "\<forall>s d. strptime s = Some d \<and> dt_offset d = 0 \<longrightarrow> utc_date d = dt_ordinal d"
    using strptime_us_range utc_date_of_utc by blast
  ultimately show ?thesis by blast
qed

theorem due_today_compares_written_date_witness:
  "utc_now noon_2025_01_15
   \<and> is_task_due_today task_due_0800_utc noon_2025_01_15
   \<and> strptime ''2025-01-15T08:00:00.000+0000''
        = Some \<lparr>dt_ordinal = 739266, dt_us = 28800000000, dt_offset = 0\<rparr>
   \<and> utc_date \<lparr>dt_ordinal = 739266, dt_us = 28800000000, dt_offset = 0\<rparr> = 739266"
proof -
  have now: "utc_now noon_2025_01_15"
    by (simp add: utc_now_def noon_2025_01_15_def MAXORDINAL_def day_us_def)
  have today: "utc_date noon_2025_01_15 = 739266"
    by (simp add: utc_date_def utc_instant_def noon_2025_01_15_def day_us_def)
  have due: "dueDate task_due_0800_utc = Some ''2025-01-15T08:00:00.000+0000''"
    by (simp add: task_due_0800_utc_def)
  show ?thesis
    using due_today_compares_written_date [OF now, of task_due_0800_utc]
      now today due parse_0800_utc
    by auto
qed

text \<open>
  C9, as the specification states it, fails in one clause: the format of the predicates
  does not require a numeric offset. The directive \<open>%z\<close> also matches the letter \<open>Z\<close>, so
  the \<open>dueDate\<close> 2025-01-15T08:00:00.000Z, which carries no numeric offset, is parsed, and
  at \<open>now\<close> = 2025-01-15T12:00Z the task is due today and overdue.
\<close>

theorem due_date_with_z_counterexample:
  "dueDate task_due_0800_z = Some ''2025-01-15T08:00:00.000Z''
   \<and> \<not> spec_numeric_offset ''2025-01-15T08:00:00.000Z''
   \<and> strptime ''2025-01-15T08:00:00.000Z''
        = Some \<lparr>dt_ordinal = 739266, dt_us = 28800000000, dt_offset = 0\<rparr>
   \<and> is_task_due_today task_due_0800_z noon_2025_01_15
   \<and> is_task_overdue task_due_0800_z noon_2025_01_15"
  by (simp add: spec_numeric_offset_def task_due_0800_z_def is_task_due_today_def
      is_task_overdue_def parse_0800_z noon_2025_01_15_def utc_instant_def day_us_def)

text \<open>
  C9, amended (the clause on the numeric offset dropped): for every task and each of the
  four date predicates, when the \<open>dueDate\<close> is missing, empty or not parsed by the format
  of the predicates, the predicate returns false and raises nothing, whatever the clock
  and the number of days; the fraction of seconds is required, so that a \<open>dueDate\<close>
  without its point (a plain date, a date-time without milliseconds) is never parsed.
\<close>

theorem unparseable_due_date_not_due:
  assumes "dueDate task = None \<or> dueDate task = Some []
           \<or> (\<exists>s. dueDate task = Some s \<and> (strptime s = None \<or> CHR ''.'' \<notin> set s))"
  shows "\<not> is_task_due_today task now \<and> \<not> is_task_overdue task now
       \<and> is_task_due_in_days task days now = Inr False \<and> week_filter task now = Inr False"
proof -
  from assms have "dueDate task = None \<or> (\<exists>s. dueDate task = Some s \<and> strptime s = None)"
    using no_fraction_unparseable by fastforce
  then show ?thesis
    by (auto simp: is_task_due_today_def is_task_overdue_def is_task_due_in_days_def
        week_filter_def)
qed

theorem unparseable_due_date_not_due_witness:
  "dueDate task_due_plain_date = Some ''2025-01-15''
   \<and> strptime ''2025-01-15'' = None
   \<and> \<not> is_task_due_today task_due_plain_date noon_2025_01_15
   \<and> \<not> is_task_overdue task_due_plain_date noon_2025_01_15
   \<and> is_task_due_in_days task_due_plain_date 10000000000 noon_2025_01_15 = Inr False
   \<and> week_filter task_due_plain_date noon_2025_01_15 = Inr False"
proof -
  have due: "dueDate task_due_plain_date = Some ''2025-01-15''"
    by (simp add: task_due_plain_date_def)
  then have h: "dueDate task_due_plain_date = None \<or> dueDate task_due_plain_date = Some []
           \<or> (\<exists>s. dueDate task_due_plain_date = Some s
                  \<and> (strptime s = None \<or> CHR ''.'' \<notin> set s))"
    by (simp add: parse_plain_date)
  show ?thesis
    using unparseable_due_date_not_due [OF h] due parse_plain_date by blast
qed

section \<open>The GTD filters\<close>

text \<open>
  C6, as the specification states it, fails: with \<open>dueToday\<close> comparing calendar dates in
  UTC, \<open>engaged\<close> is not the disjunction of priority 5, \<open>overdue\<close> and \<open>dueToday\<close>. The task
  of priority 0 due at 2025-01-15T23:00:00.000-0500 (the instant 2025-01-16T04:00Z) is
  engaged at \<open>now\<close> = 2025-01-15T12:00Z, and it is neither overdue nor due on the UTC day
  of \<open>now\<close>.
\<close>

theorem engaged_utc_date_counterexample:
  "engaged_filter task_due_2300_minus_0500 noon_2025_01_15
   \<and> task_priority task_due_2300_minus_0500 = Some 0
   \<and> \<not> spec_overdue task_due_2300_minus_0500 noon_2025_01_15
   \<and> \<not> spec_dueToday task_due_2300_minus_0500 noon_2025_01_15"
  by (simp add: engaged_filter_def gtd_is_task_overdue_def gtd_is_task_due_today_def
      get_priority_def is_task_overdue_def is_task_due_today_def spec_overdue_def
      spec_dueToday_def task_due_2300_minus_0500_def parse_2300_minus_0500
      noon_2025_01_15_def utc_date_def utc_instant_def day_us_def)

text \<open>
  C6, amended: for every task and every reading \<open>now\<close> of the clock, \<open>engaged\<close> is true if
  and only if the priority is 5, or the \<open>dueDate\<close> parses and its instant is strictly
  before \<open>now\<close>, or the \<open>dueDate\<close> parses and the calendar date written in it (the date in
  its own offset, as C5 is amended) equals the UTC date of \<open>now\<close>. For every reading of
  the clock before 9999-12-31, \<open>next\<close> is true if and only if the priority is 3,
  or the \<open>dueDate\<close> parses and the calendar date written in it is the UTC date of \<open>now\<close>
  plus one day. On 9999-12-31, the last day that the library represents, \<open>next\<close> raises
  \<open>OverflowError\<close> for a task whose \<open>dueDate\<close> parses, whatever its priority, and is the
  test of priority 3 for the others. A task without priority has priority 0.
\<close>

theorem gtd_filters_over_written_dates:
  assumes "utc_now now"
  shows "(engaged_filter task now \<longleftrightarrow>
            task_priority task = Some 5
          \<or> (\<exists>s d. dueDate task = Some s \<and> strptime s = Some d
                  \<and> utc_instant d < utc_instant now)
          \<or> (\<exists>s d. dueDate task = Some s \<and> strptime s = Some d \<and> dt_ordinal d = utc_date now))
       \<and> (dt_ordinal now < MAXORDINAL \<longrightarrow>
            next_filter task now
              = Inr (task_priority task = Some 3
                     \<or> (\<exists>s d. dueDate task = Some s \<and> strptime s = Some d
                            \<and> dt_ordinal d = utc_date now + 1)))
       \<and> (dt_ordinal now = MAXORDINAL \<longrightarrow>
            next_filter task now
              = (if \<exists>s d. dueDate task = Some s \<and> strptime s = Some d then Inl OverflowError
                 else Inr (task_priority task = Some 3)))"
proof -
  from assms have now: "utc_date now = dt_ordinal now"
    by (simp add: utc_now_def utc_date_of_utc)
  from assms have pos: "0 < dt_ordinal now"
    by (simp add: utc_now_def)
  have empty: "strptime [] = None"
    by (simp add: no_fraction_unparseable)
  have engaged: "engaged_filter task now \<longleftrightarrow>
            task_priority task = Some 5
          \<or> (\<exists>s d. dueDate task = Some s \<and> strptime s = Some d
                  \<and> utc_instant d < utc_instant now)
          \<or> (\<exists>s d. dueDate task = Some s \<and> strptime s = Some d \<and> dt_ordinal d = utc_date now)"
    using empty
    by (auto simp: engaged_filter_def gtd_is_task_overdue_def gtd_is_task_due_today_def
        get_priority_def is_task_overdue_def is_task_due_today_def now split: option.splits)
  have before_last: "dt_ordinal now < MAXORDINAL \<longrightarrow>
            next_filter task now
              = Inr (task_priority task = Some 3
                     \<or> (\<exists>s d. dueDate task = Some s \<and> strptime s = Some d
                            \<and> dt_ordinal d = utc_date now + 1))"
    using empty pos
    by (auto simp: next_filter_def gtd_is_task_due_in_days_def get_priority_def
        is_task_due_in_days_def timedelta_days_def add_days_def now Let_def
        split: option.splits)
  have last_day: "dt_ordinal now = MAXORDINAL \<longrightarrow>
            next_filter task now
              = (if \<exists>s d. dueDate task = Some s \<and> strptime s = Some d then Inl OverflowError
                 else Inr (task_priority task = Some 3))"
    using empty
    by (auto simp: next_filter_def gtd_is_task_due_in_days_def get_priority_def
        is_task_due_in_days_def timedelta_days_def add_days_def Let_def split: option.splits)
  from engaged before_last last_day show ?thesis by blast
qed

theorem gtd_filters_over_written_dates_witness:
  "utc_now noon_2025_01_15
   \<and> dt_ordinal noon_2025_01_15 < MAXORDINAL
   \<and> engaged_filter task_due_0800_utc noon_2025_01_15
   \<and> engaged_filter task_high_priority noon_2025_01_15
   \<and> \<not> engaged_filter task_due_tomorrow noon_2025_01_15
   \<and> next_filter task_due_tomorrow noon_2025_01_15 = Inr True
   \<and> next_filter task_due_0800_utc noon_2025_01_15 = Inr False
   \<and> utc_now midnight_9999_12_31
   \<and> dt_ordinal midnight_9999_12_31 = MAXORDINAL
   \<and> next_filter task_due_0800_utc midnight_9999_12_31 = Inl OverflowError
   \<and> next_filter task_high_priority midnight_9999_12_31 = Inr False"
proof -
  have now: "utc_now noon_2025_01_15"
    by (simp add: utc_now_def noon_2025_01_15_def MAXORDINAL_def day_us_def)
  have h2: "dt_ordinal noon_2025_01_15 < MAXORDINAL"
    by (simp add: noon_2025_01_15_def MAXORDINAL_def)
  have today: "utc_date noon_2025_01_15 = 739266"
    by (simp add: utc_date_def utc_instant_def noon_2025_01_15_def day_us_def)
  have inst: "utc_instant noon_2025_01_15 = 739266 * day_us + 43200000000"
    by (simp add: utc_instant_def noon_2025_01_15_def)
  note t = gtd_filters_over_written_dates [OF now]
  have e1: "engaged_filter task_due_0800_utc noon_2025_01_15"
    using t [of task_due_0800_utc] parse_0800_utc today
    by (simp add: task_due_0800_utc_def)
  have e2: "engaged_filter task_high_priority noon_2025_01_15"
    using t [of task_high_priority] by (simp add: task_high_priority_def)
  have e3: "\<not> engaged_filter task_due_tomorrow noon_2025_01_15"
    using t [of task_due_tomorrow] parse_tomorrow today inst
    by (simp add: task_due_tomorrow_def utc_instant_def day_us_def)
  have n1: "next_filter task_due_tomorrow noon_2025_01_15 = Inr True"
    using t [of task_due_tomorrow] h2 parse_tomorrow today
    by (simp add: task_due_tomorrow_def)
  have n2: "next_filter task_due_0800_utc noon_2025_01_15 = Inr False"
    using t [of task_due_0800_utc] h2 parse_0800_utc today
    by (simp add: task_due_0800_utc_def)
  have last: "utc_now midnight_9999_12_31"
    by (simp add: utc_now_def midnight_9999_12_31_def MAXORDINAL_def day_us_def)
  have h3: "dt_ordinal midnight_9999_12_31 = MAXORDINAL"
    by (simp add: midnight_9999_12_31_def MAXORDINAL_def)
  note u = gtd_filters_over_written_dates [OF last]
  have n3: "next_filter task_due_0800_utc midnight_9999_12_31 = Inl OverflowError"
    using u [of task_due_0800_utc] h3 parse_0800_utc
    by (simp add: task_due_0800_utc_def)
  have n4: "next_filter task_high_priority midnight_9999_12_31 = Inr False"
    using u [of task_high_priority] h3
    by (simp add: task_high_priority_def)
  from now h2 e1 e2 e3 n1 n2 last h3 n3 n4 show ?thesis by blast
qed

section \<open>Facts about the two loops of the batch\<close>

lemma validation_loop_eq:
  "validation_loop fromiso i tds acc
     = acc @ List.map_filter (\<lambda>(j, td). validate_task_data fromiso td j) (zip [i ..< i + length tds] tds)"
proof (induction tds arbitrary: i acc)
  case Nil
  then show ?case by (simp add: List.map_filter_simps)
next
  case (Cons td rest)
  have upt: "[i ..< i + length (td # rest)] = i # [Suc i ..< Suc i + length rest]"
    by (simp add: upt_conv_Cons del: upt_Suc)
  show ?case
    unfolding upt
    by (simp add: Cons.IH List.map_filter_simps del: upt_Suc split: option.splits)
qed

lemma zip_upt_nth:
  "List.map_filter (\<lambda>(j, td). f td j) (zip [0 ..< length tds] tds)
     = List.map_filter (\<lambda>j. f (tds ! j) j) [0 ..< length tds]"
proof -
  have "zip [0 ..< length tds] tds = map (\<lambda>j. (j, tds ! j)) [0 ..< length tds]"
    by (rule nth_equalityI) simp_all
  then show ?thesis
    by (simp add: List.map_filter_def filter_map comp_def)
qed

lemma validation_loop_gate_errors: "validation_loop fromiso 0 tds [] = gate_errors fromiso tds"
  using validation_loop_eq[of fromiso 0 tds "[]"] zip_upt_nth[of "\<lambda>td j. validate_task_data fromiso td j" tds]
  by (simp add: gate_errors_def)

lemma gate_errors_nonempty:
  "gate_errors fromiso tds \<noteq> [] \<longleftrightarrow> (\<exists>i<length tds. validate_task_data fromiso (tds ! i) i \<noteq> None)"
  by (auto simp: gate_errors_def List.map_filter_def filter_empty_conv)

lemma set_gate_errors:
  "set (gate_errors fromiso tds) = {e. \<exists>i<length tds. validate_task_data fromiso (tds ! i) i = Some e}"
  by (auto simp: gate_errors_def List.map_filter_def image_iff) force

lemma gate_title:
  assumes "validate_task_data fromiso td i = None"
  shows "\<exists>t p. title td = Some t \<and> t \<noteq> [] \<and> project_id td = Some p \<and> p \<noteq> []"
  using assms
  by (auto simp: validate_task_data_def falsy_str_def split: option.splits if_splits)

lemma length_call_outcomes: "length (call_outcomes create tds s) = length tds"
  by (induction tds arbitrary: s) (auto split: prod.splits)

lemma create_one_entry:
  assumes "has_ids td"
    and "create (the (title td)) (the (project_id td)) (content td) (start_date td) (due_date td)
           (case priority td of None \<Rightarrow> 0 | Some p \<Rightarrow> p) s = (r, s1)"
  shows "create_one create i td s = (entry_of i td r, s1)"
  using assms
  by (auto simp: has_ids_def create_one_def entry_of_def title_or_unknown_def
      split: sum.splits api_result.splits)

lemma entry_of_failed: "isl (entry_of k td r) \<longleftrightarrow> call_failed r"
  by (auto simp: entry_of_def call_failed_def split: sum.splits api_result.splits)

lemma create_loop_eq:
  assumes "\<forall>td \<in> set tds. has_ids td"
  shows "\<exists>s1. create_loop create i tds created failed s
           = ((created @ rights (entries create i tds s), failed @ lefts (entries create i tds s)), s1)"
  using assms
proof (induction tds arbitrary: i created failed s)
  case Nil
  then show ?case by (simp add: entries_def lefts_def rights_def List.map_filter_simps)
next
  case (Cons td rest)
  obtain r s1 where call: "create (the (title td)) (the (project_id td)) (content td) (start_date td) (due_date td)
           (case priority td of None \<Rightarrow> 0 | Some p \<Rightarrow> p) s = (r, s1)"
    by (cases "create (the (title td)) (the (project_id td)) (content td) (start_date td) (due_date td)
           (case priority td of None \<Rightarrow> 0 | Some p \<Rightarrow> p) s") 
  from Cons.prems have ids: "has_ids td" and rest: "\<forall>td \<in> set rest. has_ids td" by auto
  have es: "entries create i (td # rest) s = entry_of i td r # entries create (Suc i) rest s1"
    by (simp add: entries_def call upt_conv_Cons del: upt_Suc)
  note one = create_one_entry[where create=create and td=td and s=s and i=i, OF ids call]
  show ?case
  proof (cases "entry_of i td r")
    case (Inl x)
    from Cons.IH[OF rest, of "Suc i" created "failed @ [x]" s1] show ?thesis
      by (auto simp: one es Inl lefts_def rights_def List.map_filter_simps)
  next
    case (Inr y)
    from Cons.IH[OF rest, of "Suc i" "created @ [y]" failed s1] show ?thesis
      by (auto simp: one es Inr lefts_def rights_def List.map_filter_simps)
  qed
qed

lemma entries_Cons:
  "entries create i (td # rest) s =
     (case create (the (title td)) (the (project_id td)) (content td) (start_date td) (due_date td)
             (case priority td of None \<Rightarrow> 0 | Some p \<Rightarrow> p) s of
        (r, s1) \<Rightarrow> entry_of i td r # entries create (Suc i) rest s1)"
  by (simp add: entries_def upt_conv_Cons del: upt_Suc split: prod.splits)

lemma entries_Nil: "entries create i [] s = []"
  by (simp add: entries_def)

lemma length_entries: "length (entries create i tds s) = length tds"
  by (simp add: entries_def length_call_outcomes)

lemma nth_entries:
  "k < length tds \<Longrightarrow>
     entries create i tds s ! k = entry_of (i + k) (tds ! k) (call_outcomes create tds s ! k)"
  by (simp add: entries_def length_call_outcomes)

lemma num_entry_of: "num (entry_of k td r) = Suc k"
  by (auto simp: num_def entry_of_def split: sum.splits api_result.splits)

lemma map_num_entries: "map num (entries create i tds s) = map Suc [i ..< i + length tds]"
  by (rule nth_equalityI) (simp_all add: length_entries nth_entries num_entry_of)

lemma entry_Inl: "entry_of k td r = Inl x \<Longrightarrow> call_failed r"
  using entry_of_failed[of k td r] by simp

lemma entry_Inr: "entry_of k td r = Inr y \<Longrightarrow> \<not> call_failed r"
  using entry_of_failed[of k td r] by simp

lemma length_lefts_entries:
  "length (lefts (entries create i tds s)) = length (filter call_failed (call_outcomes create tds s))"
  by (induction tds arbitrary: i s)
     (auto simp: entries_Cons entries_Nil lefts_def List.map_filter_simps
           dest: entry_Inl entry_Inr split: prod.splits sum.splits)

lemma length_lefts_rights: "length (lefts xs) + length (rights xs) = length xs"
  by (induction xs) (auto simp: lefts_def rights_def List.map_filter_simps split: sum.splits)

lemma set_lefts_rights:
  "set (map fst (rights xs)) \<union> set (map fst (lefts xs)) = set (map num xs)"
  by (induction xs) (auto simp: lefts_def rights_def num_def List.map_filter_simps split: sum.splits)

lemma distinct_lefts_rights:
  "distinct (map num xs) \<Longrightarrow> distinct (map fst (rights xs) @ map fst (lefts xs))"
proof (induction xs)
  case Nil
  then show ?case by (simp add: lefts_def rights_def List.map_filter_simps)
next
  case (Cons x xs)
  from Cons.prems have fresh: "num x \<notin> set (map num xs)" and d: "distinct (map num xs)" by auto
  from fresh set_lefts_rights[of xs]
  have out: "num x \<notin> set (map fst (rights xs))" "num x \<notin> set (map fst (lefts xs))" by auto
  from Cons.IH[OF d] out show ?case
    by (cases x) (auto simp: lefts_def rights_def num_def List.map_filter_simps)
qed

lemma in_lefts: "a \<in> set (lefts xs) \<longleftrightarrow> Inl a \<in> set xs"
  by (induction xs) (auto simp: lefts_def List.map_filter_simps split: sum.splits)

lemma in_rights: "b \<in> set (rights xs) \<longleftrightarrow> Inr b \<in> set xs"
  by (induction xs) (auto simp: rights_def List.map_filter_simps split: sum.splits)

lemma entry_titles:
  assumes "\<forall>td \<in> set tds. has_ids td" and "x \<in> set (entries create 0 tds s)"
  shows "case x of Inl (n, t, r) \<Rightarrow> title (tds ! (n - 1)) = Some t
                 | Inr (n, t, r) \<Rightarrow> title (tds ! (n - 1)) = Some t"
proof -
  from assms(2) obtain k where k: "k < length tds"
    and x: "x = entry_of k (tds ! k) (call_outcomes create tds s ! k)"
    by (auto simp: in_set_conv_nth length_entries nth_entries)
  from assms(1) k have "title (tds ! k) = Some (the (title (tds ! k)))"
    by (auto simp: has_ids_def)
  then show ?thesis
    unfolding x by (auto simp: entry_of_def split: sum.splits api_result.splits)
qed

text \<open>
  A batch that passes the validation reaches the second loop, and the answer holds the
  entries of all tasks, sorted into the two lists.
\<close>

lemma batch_completed:
  assumes "tds \<noteq> []" and "\<forall>i<length tds. validate_task_data fromiso (tds ! i) i = None"
  shows "\<exists>created failed s1.
           batch_create_tasks_tool fromiso create tds s = (Completed created failed, s1)
         \<and> created = rights (entries create 0 tds s)
         \<and> failed = lefts (entries create 0 tds s)
         \<and> (\<forall>k<length tds. entries create 0 tds s ! k
                = entry_of k (tds ! k) (call_outcomes create tds s ! k))
         \<and> length failed = length (filter call_failed (call_outcomes create tds s))
         \<and> length created + length failed = length tds
         \<and> distinct (map fst created @ map fst failed)
         \<and> set (map fst created) \<union> set (map fst failed) = {1 .. length tds}
         \<and> (\<forall>(n, t, r) \<in> set created. title (tds ! (n - 1)) = Some t)
         \<and> (\<forall>(n, t, r) \<in> set failed. title (tds ! (n - 1)) = Some t)"
proof -
  let ?es = "entries create 0 tds s"
  have gate: "validation_loop fromiso 0 tds [] = []"
    using assms(2) gate_errors_nonempty[of fromiso tds] by (auto simp: validation_loop_gate_errors)
  have ids: "\<forall>td \<in> set tds. has_ids td"
    using assms(2) gate_title by (fastforce simp: has_ids_def in_set_conv_nth)
  from create_loop_eq[OF ids, of create 0 "[]" "[]" s]
  obtain s1 where loop: "create_loop create 0 tds [] [] s = ((rights ?es, lefts ?es), s1)"
    by auto
  have tool: "batch_create_tasks_tool fromiso create tds s = (Completed (rights ?es) (lefts ?es), s1)"
    using assms(1) by (simp add: batch_create_tasks_tool_def gate loop)
  have nth: "\<forall>k<length tds. ?es ! k = entry_of k (tds ! k) (call_outcomes create tds s ! k)"
    by (simp add: nth_entries)
  have total: "length (rights ?es) + length (lefts ?es) = length tds"
    using length_lefts_rights[of ?es] by (simp add: length_entries)
  have dist: "distinct (map fst (rights ?es) @ map fst (lefts ?es))"
    by (rule distinct_lefts_rights) (simp add: map_num_entries distinct_map)
  have cover: "set (map fst (rights ?es)) \<union> set (map fst (lefts ?es)) = {1 .. length tds}"
    unfolding set_lefts_rights map_num_entries by (auto simp: image_iff)
  have t1: "\<forall>(n, t, r) \<in> set (rights ?es). title (tds ! (n - 1)) = Some t"
    using entry_titles[OF ids, of _ create s] by (fastforce simp: in_rights)
  have t2: "\<forall>(n, t, r) \<in> set (lefts ?es). title (tds ! (n - 1)) = Some t"
    using entry_titles[OF ids, of _ create s] by (fastforce simp: in_lefts)
  show ?thesis
    using tool nth length_lefts_entries[of create 0 tds s] total dist cover t1 t2
    by (intro exI[of _ "rights ?es"] exI[of _ "lefts ?es"] exI[of _ s1]) simp
qed

lemma create_task_bad_title:
  assumes "MAX_TITLE_LENGTH < length t"
  shows "create_task fromiso w t p cont st du pr c
           = (Inl (ValueError (if strip t = [] then TitleEmpty else TitleTooLong (length t))), c)"
  using assms by (auto simp: create_task_def validate_task_title_def)

lemma call_outcomes_nth:
  assumes "k < length tds"
  shows "\<exists>sk. call_outcomes create tds s ! k
           = fst (create (the (title (tds ! k))) (the (project_id (tds ! k))) (content (tds ! k))
                   (start_date (tds ! k)) (due_date (tds ! k))
                   (case priority (tds ! k) of None \<Rightarrow> 0 | Some p \<Rightarrow> p) sk)"
  using assms
proof (induction tds arbitrary: k s)
  case Nil
  then show ?case by simp
next
  case (Cons td rest)
  show ?case
  proof (cases k)
    case 0
    then show ?thesis
      by (auto split: prod.splits intro!: exI[of _ s])
  next
    case (Suc j)
    with Cons.prems have "j < length rest" by simp
    from Cons.IH[OF this] Suc show ?thesis
      by (auto split: prod.splits)
  qed
qed

section \<open>The batch\<close>

text \<open>
  C2: for every batch in which some task fails \<open>_validate_task_data\<close>, the tool answers
  with the list of the validation messages of all failing tasks, in the order of their
  indices, and \<open>create_task\<close> is never called: the record of calls stays empty and the
  state of the client is unchanged.
\<close>

theorem batch_rejected_before_any_creation:
  assumes "\<exists>i<length tds. validate_task_data fromiso (tds ! i) i \<noteq> None"
  shows "batch_create_tasks_tool fromiso (recording_create create) tds ([], s)
           = (ValidationErrorsFound (gate_errors fromiso tds), ([], s))
       \<and> set (gate_errors fromiso tds)
           = {e. \<exists>i<length tds. validate_task_data fromiso (tds ! i) i = Some e}"
proof -
  from assms have "tds \<noteq> []" by auto
  moreover from assms have "gate_errors fromiso tds \<noteq> []" by (simp add: gate_errors_nonempty)
  ultimately show ?thesis
    by (simp add: batch_create_tasks_tool_def validation_loop_gate_errors set_gate_errors)
qed

lemma gate_errors_priority_2: "gate_errors (\<lambda>s. True) batch_with_priority_2 = [InvalidPriority 2 2]"
  by code_simp

theorem batch_rejected_before_any_creation_witness:
  "(\<exists>i<length batch_with_priority_2.
       validate_task_data (\<lambda>s. True) (batch_with_priority_2 ! i) i \<noteq> None)
   \<and> batch_create_tasks_tool (\<lambda>s. True) (recording_create always_creates)
        batch_with_priority_2 ([], 0)
      = (ValidationErrorsFound [InvalidPriority 2 2], ([], 0))"
proof -
  have h: "\<exists>i<length batch_with_priority_2.
             validate_task_data (\<lambda>s. True) (batch_with_priority_2 ! i) i \<noteq> None"
    by (rule exI[of _ 1])
       (simp add: batch_with_priority_2_def spec_of_def validate_task_data_def falsy_str_def)
  show ?thesis
    using batch_rejected_before_any_creation [OF h, of always_creates 0] h gate_errors_priority_2
    by simp
qed

text \<open>
  C3: for every batch of \<open>N \<ge> 1\<close> tasks that all pass the validation (the tool answers
  an empty batch before it validates), the second loop makes one entry for every index,
  in the order of the input; the entry of index \<open>k\<close> has the number \<open>k + 1\<close> and the
  title of task \<open>k\<close>, and goes to \<open>failed_tasks\<close> when the call of \<open>create_task\<close> for
  \<open>k\<close> fails and to \<open>created_tasks\<close> otherwise. So with \<open>M\<close> failing calls there are
  \<open>M\<close> failed entries and \<open>N - M\<close> created ones, and the numbers of the two lists are
  distinct and are exactly \<open>1, ..., N\<close>.
\<close>

theorem batch_covers_every_index:
  assumes "tds \<noteq> []" and "\<forall>i<length tds. validate_task_data fromiso (tds ! i) i = None"
  shows "\<exists>created failed s1.
           batch_create_tasks_tool fromiso create tds s = (Completed created failed, s1)
         \<and> created = rights (entries create 0 tds s)
         \<and> failed = lefts (entries create 0 tds s)
         \<and> (\<forall>k<length tds. entries create 0 tds s ! k
                = entry_of k (tds ! k) (call_outcomes create tds s ! k))
         \<and> length failed = length (filter call_failed (call_outcomes create tds s))
         \<and> length created + length failed = length tds
         \<and> distinct (map fst created @ map fst failed)
         \<and> set (map fst created) \<union> set (map fst failed) = {1 .. length tds}
         \<and> (\<forall>(n, t, r) \<in> set created. title (tds ! (n - 1)) = Some t)
         \<and> (\<forall>(n, t, r) \<in> set failed. title (tds ! (n - 1)) = Some t)"
  using batch_completed [OF assms] .

lemma batch_of_three_passes:
  "\<forall>i<length batch_of_three. validate_task_data (\<lambda>s. True) (batch_of_three ! i) i = None"
  by (simp add: batch_of_three_def spec_of_def validate_task_data_def falsy_str_def
      check_date_field_def All_less_Suc numeral_3_eq_3)

lemma batch_of_three_outcome:
  "batch_create_tasks_tool (\<lambda>s. True) second_call_fails batch_of_three 0
     = (Completed [(1, ''Write report'', Json (created_task ''Write report'')),
                   (3, ''Book flight'', Json (created_task ''Book flight''))]
                  [(2, ''Call bank'', NetworkError)], 3)"
  by code_simp

theorem batch_covers_every_index_witness:
  "batch_of_three \<noteq> []
   \<and> validate_task_data (\<lambda>s. True) (batch_of_three ! 0) 0 = None
   \<and> validate_task_data (\<lambda>s. True) (batch_of_three ! 1) 1 = None
   \<and> validate_task_data (\<lambda>s. True) (batch_of_three ! 2) 2 = None
   \<and> batch_create_tasks_tool (\<lambda>s. True) second_call_fails batch_of_three 0
      = (Completed [(1, ''Write report'', Json (created_task ''Write report'')),
                    (3, ''Book flight'', Json (created_task ''Book flight''))]
                   [(2, ''Call bank'', NetworkError)], 3)
   \<and> length (filter call_failed (call_outcomes second_call_fails batch_of_three 0)) = 1"
proof -
  have h1: "batch_of_three \<noteq> []" by (simp add: batch_of_three_def)
  have v0: "validate_task_data (\<lambda>s. True) (batch_of_three ! 0) 0 = None"
    by (rule batch_of_three_passes [rule_format]) (simp add: batch_of_three_def)
  have v1: "validate_task_data (\<lambda>s. True) (batch_of_three ! 1) 1 = None"
    by (rule batch_of_three_passes [rule_format]) (simp add: batch_of_three_def)
  have v2: "validate_task_data (\<lambda>s. True) (batch_of_three ! 2) 2 = None"
    by (rule batch_of_three_passes [rule_format]) (simp add: batch_of_three_def)
  from batch_covers_every_index [OF h1 batch_of_three_passes, of second_call_fails 0]
  show ?thesis
    using h1 v0 v1 v2 batch_of_three_outcome by simp
qed

text \<open>
  C10: the validation of a batch does not bound the length of a title. For every batch
  that passes it and has, at some index \<open>k\<close>, a title of more than 500 characters, the
  tool reaches the second loop; \<open>create_task\<close> raises the \<open>ValueError\<close> of the title
  validator for that title and leaves the client as it was, so that no request is sent
  for it; the entry of \<open>k\<close> is in \<open>failed_tasks\<close> with the text of the exception and not
  in \<open>created_tasks\<close>; and every index, also those after \<open>k\<close>, has its entry in one of
  the lists. The witness is such a batch.
\<close>

theorem long_title_fails_in_creation_phase:
  assumes "tds \<noteq> []" and "\<forall>i<length tds. validate_task_data fromiso (tds ! i) i = None"
    and "k < length tds" and "title (tds ! k) = Some t" and "MAX_TITLE_LENGTH < length t"
  shows "\<exists>created failed c1.
           batch_create_tasks_tool fromiso (create_task fromiso w) tds c = (Completed created failed, c1)
         \<and> (\<forall>p cont st du pr c0. create_task fromiso w t p cont st du pr c0
               = (Inl (ValueError (if strip t = [] then TitleEmpty else TitleTooLong (length t))), c0))
         \<and> (Suc k, t, ExceptionStr (ValueError (if strip t = [] then TitleEmpty else TitleTooLong (length t))))
              \<in> set failed
         \<and> Suc k \<notin> fst ` set created
         \<and> set (map fst created) \<union> set (map fst failed) = {1 .. length tds}"
proof -
  let ?e = "ValueError (if strip t = [] then TitleEmpty else TitleTooLong (length t))"
  let ?es = "entries (create_task fromiso w) 0 tds c"
  from batch_completed[OF assms(1,2), of "create_task fromiso w" c]
  obtain s1 where tool: "batch_create_tasks_tool fromiso (create_task fromiso w) tds c
                          = (Completed (rights ?es) (lefts ?es), s1)"
    and nth: "\<forall>k<length tds. ?es ! k = entry_of k (tds ! k) (call_outcomes (create_task fromiso w) tds c ! k)"
    and dist: "distinct (map fst (rights ?es) @ map fst (lefts ?es))"
    and cover: "set (map fst (rights ?es)) \<union> set (map fst (lefts ?es)) = {1 .. length tds}"
    by auto
  have raises: "\<forall>p cont st du pr c0. create_task fromiso w t p cont st du pr c0 = (Inl ?e, c0)"
    using create_task_bad_title[OF assms(5)] by blast
  from call_outcomes_nth[OF assms(3), of "create_task fromiso w" c]
  have "call_outcomes (create_task fromiso w) tds c ! k = Inl ?e"
    using raises assms(4) by auto
  with nth assms(3,4) have "?es ! k = Inl (Suc k, t, ExceptionStr ?e)"
    by (simp add: entry_of_def)
  with assms(3) have "Inl (Suc k, t, ExceptionStr ?e) \<in> set ?es"
    by (metis length_entries nth_mem)
  then have mem: "(Suc k, t, ExceptionStr ?e) \<in> set (lefts ?es)"
    by (simp add: in_lefts)
  then have "Suc k \<in> set (map fst (lefts ?es))" by force
  with dist have notin: "Suc k \<notin> fst ` set (rights ?es)" by auto
  show ?thesis
    using tool raises mem notin cover by blast
qed

lemma long_title_passes:
  "\<forall>i<length batch_with_long_title.
      validate_task_data (\<lambda>s. True) (batch_with_long_title ! i) i = None"
  by (simp add: batch_with_long_title_def spec_of_def validate_task_data_def falsy_str_def
      check_date_field_def All_less_Suc numeral_2_eq_2)

lemma long_title_outcome:
  "batch_create_tasks_tool (\<lambda>s. True) (create_task (\<lambda>s. True) answers_200)
      batch_with_long_title client_without_refresh
     = (Completed [(2, ''Short'', Json (created_task ''Short''))]
                  [(1, replicate 501 CHR ''A'', ExceptionStr (ValueError (TitleTooLong 501)))],
        client_without_refresh
          \<lparr>sent := [ApiRequest ''POST'' ''https://api.ticktick.com/open/v1/task'' ''Bearer old''
             (Some [(''title'', JStr ''Short''), (''projectId'', JStr ''p1''),
                    (''priority'', JInt 5), (''isAllDay'', JBool False)])]\<rparr>)"
  by code_simp

theorem long_title_fails_in_creation_phase_witness:
  "batch_with_long_title \<noteq> []
   \<and> validate_task_data (\<lambda>s. True) (batch_with_long_title ! 0) 0 = None
   \<and> validate_task_data (\<lambda>s. True) (batch_with_long_title ! 1) 1 = None
   \<and> 0 < length batch_with_long_title
   \<and> title (batch_with_long_title ! 0) = Some (replicate 501 CHR ''A'')
   \<and> MAX_TITLE_LENGTH < length (replicate 501 CHR ''A'')
   \<and> batch_create_tasks_tool (\<lambda>s. True) (create_task (\<lambda>s. True) answers_200)
        batch_with_long_title client_without_refresh
      = (Completed [(2, ''Short'', Json (created_task ''Short''))]
                   [(1, replicate 501 CHR ''A'', ExceptionStr (ValueError (TitleTooLong 501)))],
         client_without_refresh
           \<lparr>sent := [ApiRequest ''POST'' ''https://api.ticktick.com/open/v1/task'' ''Bearer old''
              (Some [(''title'', JStr ''Short''), (''projectId'', JStr ''p1''),
                     (''priority'', JInt 5), (''isAllDay'', JBool False)])]\<rparr>)"
proof -
  have h1: "batch_with_long_title \<noteq> []" by (simp add: batch_with_long_title_def)
  have v0: "validate_task_data (\<lambda>s. True) (batch_with_long_title ! 0) 0 = None"
    by (rule long_title_passes [rule_format]) (simp add: batch_with_long_title_def)
  have v1: "validate_task_data (\<lambda>s. True) (batch_with_long_title ! 1) 1 = None"
    by (rule long_title_passes [rule_format]) (simp add: batch_with_long_title_def)
  have h3: "0 < length batch_with_long_title" by (simp add: batch_with_long_title_def)
  have h4: "title (batch_with_long_title ! 0) = Some (replicate 501 CHR ''A'')"
    by (simp add: batch_with_long_title_def spec_of_def)
  have h5: "MAX_TITLE_LENGTH < length (replicate 501 CHR ''A'')"
    by (simp add: MAX_TITLE_LENGTH_def)
  from long_title_fails_in_creation_phase [OF h1 long_title_passes h3 h4 h5,
      of answers_200 client_without_refresh]
  show ?thesis
    using h1 v0 v1 h3 h4 h5 long_title_outcome by simp
qed

section \<open>The scan\<close>

lemma matching_nil: "matching_tasks f [] = []"
  by (simp add: matching_tasks_def enumerate1_def)

lemma scan_loop_eq:
  "\<exists>s1. scan_loop fetch f i ps result s
     = (result @ map (\<lambda>((n, p), r). block_of f n p r)
                   (zip (filter (\<lambda>(n, p). is_open p) (zip [i ..< i + length ps] ps))
                        (fetch_outcomes fetch ps s)), s1)"
proof (induction ps arbitrary: i result s)
  case Nil
  then show ?case by simp
next
  case (Cons p rest)
  have upt: "[i ..< i + length (p # rest)] = i # [Suc i ..< Suc i + length rest]"
    by (simp add: upt_conv_Cons del: upt_Suc)
  show ?case
  proof (cases "is_open p")
    case False
    then show ?thesis
      using Cons.IH[of "Suc i" result s] unfolding upt
      by (simp add: is_open_def del: upt_Suc)
  next
    case True
    obtain r s1 where f: "fetch (id_of p) s = (r, s1)" by (cases "fetch (id_of p) s")
    from True f show ?thesis
      using Cons.IH[of "Suc i" "result @ [block_of f i p r]" s1] unfolding upt
      by (auto simp: is_open_def id_of_def block_of_def matching_nil simp del: upt_Suc)
  qed
qed

lemma recording_fetch_apply:
  "fetch pid s = (r, s1) \<Longrightarrow> recording_fetch fetch pid (calls, s) = (r, (calls @ [pid], s1))"
  by (simp add: recording_fetch_def)

lemma recorded_calls:
  "scan_loop (recording_fetch fetch) f i ps result (calls, s)
     = (case scan_loop fetch f i ps result s of
          (blocks, s1) \<Rightarrow> (blocks, (calls @ map id_of (filter is_open ps), s1)))"
proof (induction ps arbitrary: i result calls s)
  case Nil
  then show ?case by simp
next
  case (Cons p rest)
  show ?case
  proof (cases "is_open p")
    case False
    then show ?thesis
      using Cons.IH by (simp add: is_open_def)
  next
    case True
    obtain r s1 where f: "fetch (id_of p) s = (r, s1)" by (cases "fetch (id_of p) s")
    note rf = recording_fetch_apply[where fetch=fetch and pid="id_of p" and s=s and calls=calls, OF f]
    from True f rf show ?thesis
      by (simp add: Cons.IH is_open_def id_of_def)
  qed
qed


lemma length_fetch_outcomes: "length (fetch_outcomes fetch ps s) = length (filter is_open ps)"
  by (induction ps arbitrary: s) (auto split: prod.splits)

lemma snd_open_pairs:
  "length idx = length ps \<Longrightarrow>
     map snd (filter (\<lambda>(n, p). is_open p) (zip idx ps)) = filter is_open ps"
  by (induction idx ps rule: list_induct2) auto

lemma block_fields:
  assumes "length A = length B"
  shows "map blk_project (map (\<lambda>((n, p), r). block_of f n p r) (zip A B)) = map snd A"
    and "map blk_number (map (\<lambda>((n, p), r). block_of f n p r) (zip A B)) = map fst A"
    and "map blk_tasks (map (\<lambda>((n, p), r). block_of f n p r) (zip A B))
           = map (\<lambda>r. matching_tasks f (get_tasks r)) B"
    and "map blk_count (map (\<lambda>((n, p), r). block_of f n p r) (zip A B))
           = map (\<lambda>r. length (matching_tasks f (get_tasks r))) B"
  using assms
  by (induction A B rule: list_induct2) (auto simp: block_of_def)

text \<open>
  C8: for every list of projects that is not empty, the scan takes the projects in the
  order of the list. A closed project is skipped: there is no fetch for it (the fetches
  are those of the projects that are not closed, in order) and the report has no block
  for it, so no task is reported for it. Every project that is not closed has its
  block, with its number in the list, the tasks that match among those fetched, and
  their count, which is 0 when none matches.
\<close>

theorem scan_skips_closed_and_reports_open:
  assumes "projects \<noteq> []"
  shows "\<exists>blocks s1.
           get_project_tasks_by_filter (recording_fetch fetch) projects f ([], s)
             = (Found (length projects) blocks, (map id_of (filter is_open projects), s1))
         \<and> map blk_project blocks = filter is_open projects
         \<and> map blk_number blocks = map fst (filter (\<lambda>(n, p). is_open p) (enumerate1 projects))
         \<and> map blk_tasks blocks
             = map (\<lambda>r. matching_tasks f (get_tasks r)) (fetch_outcomes fetch projects s)
         \<and> map blk_count blocks
             = map (\<lambda>r. length (matching_tasks f (get_tasks r))) (fetch_outcomes fetch projects s)"
proof -
  let ?A = "filter (\<lambda>(n, p). is_open p) (enumerate1 projects)"
  let ?B = "fetch_outcomes fetch projects s"
  let ?blocks = "map (\<lambda>((n, p), r). block_of f n p r) (zip ?A ?B)"
  have e1: "enumerate1 projects = zip [1 ..< 1 + length projects] projects"
    by (simp add: enumerate1_def)
  have sndA: "map snd ?A = filter is_open projects"
    unfolding e1 by (rule snd_open_pairs) (simp del: upt_Suc)
  then have len: "length ?A = length ?B"
    by (metis length_map length_fetch_outcomes)
  from scan_loop_eq[of fetch f 1 projects "[]" s]
  obtain s1 where loop: "scan_loop fetch f 1 projects [] s = (?blocks, s1)"
    unfolding e1 by auto
  have "get_project_tasks_by_filter (recording_fetch fetch) projects f ([], s)
          = (Found (length projects) ?blocks, (map id_of (filter is_open projects), s1))"
    using assms loop by (simp add: get_project_tasks_by_filter_def recorded_calls)
  then show ?thesis
    using block_fields[OF len, of f] sndA by auto
qed

lemma scan_outcome:
  "get_project_tasks_by_filter (recording_fetch fetch_one_task)
      [archived_project, work_project, home_project] (\<lambda>t. get_priority t = 5) ([], 0)
     = (Found 3 [\<lparr>blk_number = 2, blk_project = work_project, blk_count = 0, blk_tasks = []\<rparr>,
                 \<lparr>blk_number = 3, blk_project = home_project, blk_count = 0, blk_tasks = []\<rparr>],
        ([''p1'', ''p2''], 2))"
  by code_simp

theorem scan_skips_closed_and_reports_open_witness:
  "[archived_project, work_project, home_project] \<noteq> []
   \<and> get_project_tasks_by_filter (recording_fetch fetch_one_task)
        [archived_project, work_project, home_project] (\<lambda>t. get_priority t = 5) ([], 0)
      = (Found 3 [\<lparr>blk_number = 2, blk_project = work_project, blk_count = 0, blk_tasks = []\<rparr>,
                  \<lparr>blk_number = 3, blk_project = home_project, blk_count = 0, blk_tasks = []\<rparr>],
         ([''p1'', ''p2''], 2))
   \<and> filter is_open [archived_project, work_project, home_project] = [work_project, home_project]"
proof -
  have h: "[archived_project, work_project, home_project] \<noteq> []" by simp
  have op: "filter is_open [archived_project, work_project, home_project] = [work_project, home_project]"
    by (simp add: is_open_def archived_project_def work_project_def home_project_def)
  from scan_skips_closed_and_reports_open [OF h, of fetch_one_task "\<lambda>t. get_priority t = 5" 0]
  show ?thesis
    using scan_outcome op by simp
qed

text \<open>
  C4 does not hold of the code. When the fetch of the project \<open>p1\<close> returns the
  dictionary of a connection failure, the scan goes on to the next project, and the
  block of \<open>p1\<close> says "0 tasks": \<open>_get_project_tasks_by_filter\<close> reads
  \<open>project_data.get('tasks', [])\<close> without testing for the key \<open>error\<close> (as
  \<open>get_project_tasks_tool\<close> does), so the report is the one of a scan in which \<open>p1\<close>
  has no tasks and nothing in it notes the failure.
\<close>

theorem fetch_failure_reported_as_no_tasks:
  "get_project_tasks_by_filter fetch_p1_fails [work_project, home_project] (\<lambda>t. True) 0
     = (Found 2 [\<lparr>blk_number = 1, blk_project = work_project, blk_count = 0, blk_tasks = []\<rparr>,
                 \<lparr>blk_number = 2, blk_project = home_project, blk_count = 1,
                  blk_tasks = [(1, task_due_0800_utc)]\<rparr>], 2)
   \<and> get_project_tasks_by_filter fetch_p1_empty [work_project, home_project] (\<lambda>t. True) 0
     = get_project_tasks_by_filter fetch_p1_fails [work_project, home_project] (\<lambda>t. True) 0"
  by code_simp

section \<open>The transport\<close>

text \<open>
  Whatever the status, the handler of \<open>HTTPError\<close> takes its last branch: the response
  of an \<open>HTTPError\<close> is falsy, so \<open>status_code\<close> is \<open>None\<close> there.
\<close>

lemma http_error_always_api:
  assumes "raises_for_status r"
  shows "finish r = ErrorDict (HTTPErrorText (status_code r)) None ''api''"
  using assms by (simp add: finish_def handle_HTTPError_def response_bool_def)

lemma no_content_is_empty_success:
  assumes "\<not> raises_for_status r" and "status_code r = 204 \<or> body_text r = []"
  shows "finish r = EmptyDict"
  using assms by (auto simp: finish_def)

lemma session_call_sent:
  assumes "session_call w m u d c = (r, c1)"
  shows "(\<exists>e. r = Inl e \<and> c1 = c)
       \<or> (\<exists>body. c1 = c\<lparr>sent := sent c @ [ApiRequest m u (authorization c) body]\<rparr>
                  \<and> r = Inr (api w (sent c1)))"
  using assms by (auto simp: session_call_def Let_def split: if_splits)

lemma refresh_sent:
  assumes "refresh_access_token w c = (r, c1)"
  shows "(r \<noteq> Inr True \<and> c1 = c)
       \<or> (\<exists>rt cred. sent c1 = sent c @ [TokenRequest (token_url c) rt cred]
             \<and> refresh_token c = Some rt
             \<and> cred = the (client_id c) @ '':'' @ the (client_secret c)
             \<and> (r = Inr False \<or> r = Inr True \<and> authorization c1 = bearer (access_token c1)))"
  using assms
  by (auto simp: refresh_access_token_def Let_def falsy_str_def split: if_splits token_reply.splits option.splits)

lemma token_request_flag [simp]:
  "is_token_request (TokenRequest u r a)" "\<not> is_token_request (ApiRequest m v b d)"
  by (simp_all add: is_token_request_def)

text \<open>One call of \<open>_make_request\<close> sends at most one token request and at most two API requests.\<close>

lemma make_request_counts:
  assumes "make_request w m e d c = (res, c3)"
  shows "\<exists>new. sent c3 = sent c @ new
           \<and> length (filter is_token_request new) \<le> 1
           \<and> length (filter (\<lambda>x. \<not> is_token_request x) new) \<le> 2"
proof -
  obtain r1 c1 where s1: "session_call w m (base_url c @ e) d c = (r1, c1)"
    by (cases "session_call w m (base_url c @ e) d c")
  from session_call_sent[OF s1]
  have n1: "\<exists>new. sent c1 = sent c @ new \<and> length (filter is_token_request new) = 0
                 \<and> length (filter (\<lambda>x. \<not> is_token_request x) new) \<le> 1"
    by auto
  obtain r2 c2 where s2: "refresh_access_token w c1 = (r2, c2)"
    by (cases "refresh_access_token w c1")
  from refresh_sent[OF s2]
  have n2: "\<exists>new. sent c2 = sent c1 @ new \<and> length (filter is_token_request new) \<le> 1
                 \<and> length (filter (\<lambda>x. \<not> is_token_request x) new) = 0"
    by auto
  obtain r3 c4 where s3: "session_call w m (base_url c @ e) d c2 = (r3, c4)"
    by (cases "session_call w m (base_url c @ e) d c2")
  from session_call_sent[OF s3]
  have n3: "\<exists>new. sent c4 = sent c2 @ new \<and> length (filter is_token_request new) = 0
                 \<and> length (filter (\<lambda>x. \<not> is_token_request x) new) \<le> 1"
    by auto
  have "c3 = c1 \<or> c3 = c2 \<or> c3 = c4"
    using assms s1 s2 s3
    by (auto simp: make_request_def Let_def split: sum.splits sent_result.splits if_splits bool.splits)
  moreover from n1 n2 obtain a b where "sent c2 = sent c @ (a @ b)" 
    "length (filter is_token_request (a @ b)) \<le> 1" "length (filter (\<lambda>x. \<not> is_token_request x) (a @ b)) \<le> 1"
    by fastforce
  moreover from this n3 obtain x where "sent c4 = sent c @ x" 
    "length (filter is_token_request x) \<le> 1" "length (filter (\<lambda>x. \<not> is_token_request x) x) \<le> 2"
    by fastforce
  ultimately show ?thesis
    using n1 by (metis le_SucI numeral_2_eq_2 One_nat_def le0 le_numeral_extra(4))
qed

text \<open>
  The scenario of the specification: the first answer is 401, the refresh succeeds, and
  the request sent again, with the new token, is answered 200. The result is the
  payload, after two API requests and one token request.
\<close>

lemma refresh_then_retry_succeeds:
  "make_request expired_then_ok ''GET'' ''/project'' None client_with_refresh
     = (Inr (Json (created_task ''Short'')),
        client_with_refresh
          \<lparr>access_token := Some ''new'', authorization := ''Bearer new'',
           sent := [ApiRequest ''GET'' ''https://api.ticktick.com/open/v1/project'' ''Bearer old'' None,
                    TokenRequest ''https://ticktick.com/oauth/token'' ''refresh'' ''id:secret'',
                    ApiRequest ''GET'' ''https://api.ticktick.com/open/v1/project'' ''Bearer new'' None]\<rparr>)"
  by code_simp

text \<open>
  C1 does not hold of the code in its clause on the failed refresh. A request answered
  401 by a client without refresh token, or with one that the token endpoint rejects,
  makes one attempt to refresh and no second one, and then returns the dictionary with
  \<open>type\<close> \<open>api\<close> and \<open>status_code\<close> \<open>None\<close>, not the one of an authentication failure
  (\<open>type\<close> \<open>auth\<close>, status 401).
\<close>

theorem unauthorized_after_failed_refresh_is_api_error:
  "make_request (answers_status 401) ''GET'' ''/project'' None client_without_refresh
     = (Inr (ErrorDict (HTTPErrorText 401) None ''api''),
        client_without_refresh
          \<lparr>sent := [ApiRequest ''GET'' ''https://api.ticktick.com/open/v1/project'' ''Bearer old'' None]\<rparr>)
   \<and> make_request (answers_status 401) ''GET'' ''/project'' None client_with_refresh
     = (Inr (ErrorDict (HTTPErrorText 401) None ''api''),
        client_with_refresh
          \<lparr>sent := [ApiRequest ''GET'' ''https://api.ticktick.com/open/v1/project'' ''Bearer old'' None,
                     TokenRequest ''https://ticktick.com/oauth/token'' ''refresh'' ''id:secret'']\<rparr>)"
  by code_simp

text \<open>
  C7 does not hold of the code in its clauses on the status: a request answered 403,
  404 or 501 returns the dictionary with \<open>type\<close> \<open>api\<close> and \<open>status_code\<close> \<open>None\<close>, not
  \<open>permission\<close>, \<open>not_found\<close> or \<open>server_error\<close> with the status.
\<close>

theorem http_status_is_api_error:
  "fst (make_request (answers_status 403) ''GET'' ''/project'' None client_without_refresh)
     = Inr (ErrorDict (HTTPErrorText 403) None ''api'')
   \<and> fst (make_request (answers_status 404) ''GET'' ''/project'' None client_without_refresh)
     = Inr (ErrorDict (HTTPErrorText 404) None ''api'')
   \<and> fst (make_request (answers_status 501) ''GET'' ''/project'' None client_without_refresh)
     = Inr (ErrorDict (HTTPErrorText 501) None ''api'')"
  by code_simp

end
